theory Spec2Isabelle
  imports Complex_Main "HOL-Library.Sublist" "HOL-Library.Multiset"
begin

section \<open>Values, errors and product descriptions\<close>

text \<open>
  The values that reach a price: a Python \<open>int\<close>, a \<open>float\<close> and a \<open>str\<close>. A float is
  given by the rational number it denotes. A string is a list of characters, each a code
  point below 256; among these the decimal digits of \<open>\d\<close> and of \<open>int()\<close> are
  \<open>0\<close> to \<open>9\<close>.
\<close>

datatype pyval = IntV int | FloatV rat | StrV string

text \<open>
  The exceptions of \<open>model.py\<close> (\<open>OutOfStock\<close>, \<open>UnknownProduct\<close>, and the plain
  \<open>Exception("Price is missing! ...")\<close>, here \<open>PriceMissing\<close>) and the built-in ones its
  statements raise.
\<close>

datatype error =
    OutOfStock
  | UnknownProduct
  | PriceMissing
  | KeyError string
  | AttributeError
  | TypeError
  | ValueError
  | IntegrityError

text \<open>
  The dictionary \<open>from_dict\<close> of \<open>Product.__init__\<close>. Each key the constructor reads is a
  field, \<open>None\<close> when the dictionary has no such key; \<open>other_keys\<close> lists the keys the
  constructor never reads. The values under \<open>id\<close>, \<open>name\<close>, \<open>brand\<close> and
  \<open>in_stock_quantity\<close> have the types of the catalogue and of the database rows; the two
  price entries hold any value.
\<close>

record description =
  key_id :: "int option"
  key_name :: "string option"
  key_brand :: "string option"
  key_int_price :: "pyval option"
  key_price :: "pyval option"
  key_in_stock_quantity :: "int option"
  other_keys :: "string list"

text \<open>Truth value of a dictionary: false exactly when it has no key.\<close>

definition dict_truthy :: "description \<Rightarrow> bool" where
  "dict_truthy d \<longleftrightarrow>
     key_id d \<noteq> None \<or> key_name d \<noteq> None \<or> key_brand d \<noteq> None \<or>
     key_int_price d \<noteq> None \<or> key_price d \<noteq> None \<or>
     key_in_stock_quantity d \<noteq> None \<or> other_keys d \<noteq> []"

section \<open>Product\<close>

record Product =
  product_id :: int
  name :: string
  brand :: string
  price :: pyval
  in_stock_quantity :: int

subsection \<open>The price pattern\<close>

definition is_digit :: "char \<Rightarrow> bool" where
  "is_digit c \<longleftrightarrow> c \<in> set ''0123456789''"

definition digit_value :: "char \<Rightarrow> int" where
  "digit_value c = int (of_char c) - 48"

text \<open>\<open>int(s)\<close> on a string of decimal digits.\<close>

definition py_int :: "string \<Rightarrow> int" where
  "py_int s = foldl (\<lambda>n c. 10 * n + digit_value c) 0 s"

text \<open>
  \<open>re.compile(r'(\d+)\.(\d+)GBP').match(s)\<close>: the match is anchored at the start of \<open>s\<close>
  only. A greedy \<open>\d+\<close> takes the longest run of digits; giving a digit back never helps,
  since the next pattern character (\<open>.\<close>, then \<open>G\<close>) is no digit. The result is the pair
  of groups, or \<open>None\<close>.
\<close>

definition price_re_match :: "string \<Rightarrow> (string \<times> string) option" where
  "price_re_match s =
     (let whole = takeWhile is_digit s; r = dropWhile is_digit s in
      if whole = [] then None
      else (case r of
          [] \<Rightarrow> None
        | c # r1 \<Rightarrow>
            if c \<noteq> CHR ''.'' then None
            else (let cents = takeWhile is_digit r1; r2 = dropWhile is_digit r1 in
                  if cents = [] then None
                  else if take 3 r2 = ''GBP'' then Some (whole, cents)
                  else None)))"

text \<open>
  The strings the pattern describes, read off the pattern itself: a non-empty group of
  digits, a dot, a non-empty group of digits, \<open>GBP\<close>, and anything after.
\<close>

definition digits :: "string \<Rightarrow> bool" where
  "digits s \<longleftrightarrow> s \<noteq> [] \<and> list_all is_digit s"

definition price_shape :: "string \<Rightarrow> string \<Rightarrow> string \<Rightarrow> string" where
  "price_shape whole cents rest = whole @ ''.'' @ cents @ ''GBP'' @ rest"

subsection \<open>Construction\<close>

text \<open>
  The \<open>elif "price" in from_dict\<close> branch. A value that is no string makes
  \<open>price_re.match\<close> raise \<open>TypeError\<close>; on a string that does not match,
  \<open>price_match\<close> is \<open>None\<close> and \<open>price_match.groups()\<close> raises \<open>AttributeError\<close>.
\<close>

fun parse_price :: "pyval \<Rightarrow> error + pyval" where
  "parse_price (StrV s) =
     (case price_re_match s of
        None \<Rightarrow> Inl AttributeError
      | Some (whole, cents) \<Rightarrow> Inr (IntV (py_int whole * 100 + py_int cents)))"
| "parse_price _ = Inl TypeError"

definition price_of :: "description \<Rightarrow> error + pyval" where
  "price_of d =
     (case key_int_price d of
        Some v \<Rightarrow> Inr v
      | None \<Rightarrow>
          (case key_price d of
             Some v \<Rightarrow> parse_price v
           | None \<Rightarrow> Inl PriceMissing))"

text \<open>The body of \<open>if from_dict:\<close>, statement by statement.\<close>

definition Product_fields :: "description \<Rightarrow> error + Product" where
  "Product_fields d =
     (case key_id d of
        None \<Rightarrow> Inl (KeyError ''id'')
      | Some i \<Rightarrow>
     (case key_name d of
        None \<Rightarrow> Inl (KeyError ''name'')
      | Some n \<Rightarrow>
     (case key_brand d of
        None \<Rightarrow> Inl (KeyError ''brand'')
      | Some b \<Rightarrow>
     (case price_of d of
        Inl e \<Rightarrow> Inl e
      | Inr p \<Rightarrow>
     (case key_in_stock_quantity d of
        None \<Rightarrow> Inl (KeyError ''in_stock_quantity'')
      | Some q \<Rightarrow>
          Inr \<lparr>product_id = i, name = n, brand = b, price = p,
               in_stock_quantity = q\<rparr>)))))"

text \<open>
  What \<open>Product(db_conn, from_dict)\<close> hands back: an object on which only \<open>db_conn\<close> is
  set (\<open>Bare\<close>), or one with all five attributes.
\<close>

datatype product_object = Bare | Built Product

definition Product_init :: "description option \<Rightarrow> error + product_object" where
  "Product_init from_dict =
     (case from_dict of
        None \<Rightarrow> Inr Bare
      | Some d \<Rightarrow>
          if dict_truthy d then
            (case Product_fields d of Inl e \<Rightarrow> Inl e | Inr p \<Rightarrow> Inr (Built p))
          else Inr Bare)"

section \<open>The store\<close>

text \<open>
  The two tables the statements of \<open>model.py\<close> and \<open>wedding_lister.py\<close> name, each a list
  of rows in the order a \<open>SELECT\<close> without \<open>ORDER BY\<close> scans them: ascending row id.
  A \<open>purchased\<close> cell is the integer the code writes (\<open>0\<close> or \<open>1\<close>).
\<close>

record product_row =
  p_rowid :: int
  p_name :: string
  p_brand :: string
  p_price :: pyval
  p_in_stock_quantity :: int

record gift_row =
  g_rowid :: int
  g_product_id :: int
  g_purchased :: int

text \<open>The statements the code executes, with their parameters in the code's order.\<close>

datatype statement =
    UPDATE_products int int
  | UPDATE_wedding_gift int int
  | DELETE_wedding_gift int
  | INSERT_wedding_gift int int
  | INSERT_products product_row
  | CREATE_tables

text \<open>
  A connection: whether the schema exists, the tables as the connection reads them, the
  statements executed since the last commit, and the statements made durable so far, in
  the order of their commits. Only \<open>init_db\<close> looks at \<open>has_schema\<close>: the methods of
  \<open>model.py\<close> run after it, and the error SQLite raises on a missing table is left out.
\<close>

record database =
  has_schema :: bool
  products :: "product_row list"
  wedding_gift :: "gift_row list"
  pending :: "statement list"
  committed :: "statement list"

text \<open>
  The row id an \<open>INSERT\<close> without a row id receives: one more than the largest in use,
  \<open>1\<close> in an empty table.
\<close>

definition next_rowid :: "gift_row list \<Rightarrow> int" where
  "next_rowid rows =
     (case rows of [] \<Rightarrow> 1 | r # rs \<Rightarrow> foldl max (g_rowid r) (map g_rowid rs) + 1)"

fun apply_statement :: "statement \<Rightarrow> database \<Rightarrow> database" where
  "apply_statement (UPDATE_products q rid) db =
     db\<lparr>products :=
          map (\<lambda>r. if p_rowid r = rid then r\<lparr>p_in_stock_quantity := q\<rparr> else r)
            (products db)\<rparr>"
| "apply_statement (UPDATE_wedding_gift v rid) db =
     db\<lparr>wedding_gift :=
          map (\<lambda>r. if g_rowid r = rid then r\<lparr>g_purchased := v\<rparr> else r)
            (wedding_gift db)\<rparr>"
| "apply_statement (DELETE_wedding_gift rid) db =
     db\<lparr>wedding_gift := filter (\<lambda>r. g_rowid r \<noteq> rid) (wedding_gift db)\<rparr>"
| "apply_statement (INSERT_wedding_gift pid v) db =
     db\<lparr>wedding_gift :=
          wedding_gift db @
          [\<lparr>g_rowid = next_rowid (wedding_gift db), g_product_id = pid,
            g_purchased = v\<rparr>]\<rparr>"
| "apply_statement (INSERT_products row) db =
     db\<lparr>products := insort_key p_rowid row (products db)\<rparr>"
| "apply_statement CREATE_tables db =
     db\<lparr>has_schema := True, products := [], wedding_gift := []\<rparr>"

text \<open>\<open>cur.execute(...)\<close> and \<open>db_conn.commit()\<close>.\<close>

definition execute :: "statement \<Rightarrow> database \<Rightarrow> database" where
  "execute st db = (apply_statement st db)\<lparr>pending := pending db @ [st]\<rparr>"

definition commit :: "database \<Rightarrow> database" where
  "commit db = db\<lparr>committed := committed db @ pending db, pending := []\<rparr>"

text \<open>
  An \<open>INSERT\<close> that names its row id fails on a row id already in the table
  (\<open>sqlite3.IntegrityError\<close>).
\<close>

definition execute_INSERT_products :: "product_row \<Rightarrow> database \<Rightarrow> error + database" where
  "execute_INSERT_products row db =
     (if p_rowid row \<in> set (map p_rowid (products db)) then Inl IntegrityError
      else Inr (execute (INSERT_products row) db))"

subsection \<open>Product.purchase\<close>

text \<open>
  A method returns its outcome together with the object and the connection as it leaves
  them, also when it raises.
\<close>

definition Product_purchase ::
  "Product \<Rightarrow> database \<Rightarrow> (error + unit) \<times> Product \<times> database" where
  "Product_purchase self db =
     (if in_stock_quantity self > 0 then
        (let self' = self\<lparr>in_stock_quantity := in_stock_quantity self - 1\<rparr>;
             db' = execute (UPDATE_products (in_stock_quantity self') (product_id self')) db
         in (Inr (), self', commit db'))
      else (Inl OutOfStock, self, db))"

subsection \<open>Loading products\<close>

text \<open>
  A list comprehension whose element expression may raise: the elements in order, or the
  first exception.
\<close>

fun collect :: "(error + 'a) list \<Rightarrow> error + 'a list" where
  "collect [] = Inr []"
| "collect (x # xs) =
     (case x of
        Inl e \<Rightarrow> Inl e
      | Inr v \<Rightarrow> (case collect xs of Inl e \<Rightarrow> Inl e | Inr vs \<Rightarrow> Inr (v # vs)))"

text \<open>The dictionary literal \<open>get_gift_repository\<close> builds from a row.\<close>

definition row_dict :: "product_row \<Rightarrow> description" where
  "row_dict product =
     \<lparr>key_id = Some (p_rowid product), key_name = Some (p_name product),
      key_brand = Some (p_brand product), key_int_price = Some (p_price product),
      key_price = None, key_in_stock_quantity = Some (p_in_stock_quantity product),
      other_keys = []\<rparr>"

text \<open>
  The loaders only read the connection. The dictionary literal has five keys, so the
  constructor's \<open>if from_dict:\<close> is passed and its body runs.
\<close>

definition get_gift_repository :: "database \<Rightarrow> error + Product list" where
  "get_gift_repository db =
     collect (map (\<lambda>product. Product_fields (row_dict product)) (products db))"

definition get_product_by_id :: "database \<Rightarrow> int \<Rightarrow> error + Product" where
  "get_product_by_id db pid =
     (case get_gift_repository db of
        Inl e \<Rightarrow> Inl e
      | Inr ps \<Rightarrow>
          (case filter (\<lambda>product. product_id product = pid) ps of
             [] \<Rightarrow> Inl UnknownProduct
           | p # _ \<Rightarrow> Inr p))"

text \<open>\<open>get_example_gift_repository\<close>; the parsed file is a list of descriptions.\<close>

definition get_example_gift_repository ::
  "description list \<Rightarrow> error + product_object list" where
  "get_example_gift_repository repo_file =
     collect (map (\<lambda>gift_item. Product_init (Some gift_item)) repo_file)"

section \<open>GiftItem\<close>

text \<open>
  A gift item holds its product. Every gift item the repository builds
  (\<open>get_wedding_gifts\<close>, the \<open>PUT\<close> handler) receives a product object of its own from
  \<open>get_product_by_id\<close>, so the product is a field of the record.
\<close>

record GiftItem =
  gift_id :: int
  product :: Product
  purchased :: bool

definition GiftItem_purchase ::
  "GiftItem \<Rightarrow> database \<Rightarrow> (error + unit) \<times> GiftItem \<times> database" where
  "GiftItem_purchase self db =
     (case Product_purchase (product self) db of
        (Inl e, p', db') \<Rightarrow> (Inl e, self\<lparr>product := p'\<rparr>, db')
      | (Inr _, p', db') \<Rightarrow>
          (let self' = self\<lparr>product := p', purchased := True\<rparr>;
               db'' = execute (UPDATE_wedding_gift 1 (gift_id self')) db'
           in (Inr (), self', commit db'')))"

definition GiftItem_remove :: "GiftItem \<Rightarrow> database \<Rightarrow> GiftItem \<times> database" where
  "GiftItem_remove self db = (self, commit (execute (DELETE_wedding_gift (gift_id self)) db))"

definition get_new_gift_item :: "database \<Rightarrow> Product \<Rightarrow> GiftItem \<times> database" where
  "get_new_gift_item db the_product =
     (let gift_row_id = next_rowid (wedding_gift db);
          db' = commit (execute (INSERT_wedding_gift (product_id the_product) 0) db)
      in (\<lparr>gift_id = gift_row_id, product = the_product, purchased = False\<rparr>, db'))"

section \<open>WeddingList\<close>

text \<open>
  The element expression of the comprehension in \<open>get_wedding_gifts\<close>, for one row
  \<open>gift\<close>: the product is looked up first, then the gift item is built.
\<close>

definition gift_of_row :: "database \<Rightarrow> gift_row \<Rightarrow> error + GiftItem" where
  "gift_of_row db gift =
     (case get_product_by_id db (g_product_id gift) of
        Inl e \<Rightarrow> Inl e
      | Inr p \<Rightarrow>
          Inr \<lparr>gift_id = g_rowid gift, product = p,
               purchased = (g_purchased gift > 0)\<rparr>)"

definition get_wedding_gifts :: "database \<Rightarrow> error + GiftItem list" where
  "get_wedding_gifts db = collect (map (gift_of_row db) (wedding_gift db))"

subsection \<open>Objects and their identity\<close>

text \<open>
  \<open>WeddingList\<close> is a \<open>UserList\<close>: \<open>self.data\<close> is a list of references to gift item
  objects. \<open>GiftItem\<close> defines no \<open>__eq__\<close>, so \<open>==\<close> on gift items compares the
  references. A reference is an address; the heap gives each object's current attributes,
  and \<open>next_ref\<close> is the first address no object has.
\<close>

type_synonym ref = nat

record world =
  heap :: "ref \<Rightarrow> GiftItem"
  next_ref :: ref
  conn :: database

definition alloc :: "GiftItem \<Rightarrow> world \<Rightarrow> ref \<times> world" where
  "alloc g w =
     (next_ref w, w\<lparr>heap := (heap w)(next_ref w := g), next_ref := Suc (next_ref w)\<rparr>)"

fun alloc_all :: "GiftItem list \<Rightarrow> world \<Rightarrow> ref list \<times> world" where
  "alloc_all [] w = ([], w)"
| "alloc_all (g # gs) w =
     (case alloc g w of (r, w1) \<Rightarrow>
        (case alloc_all gs w1 of (rs, w2) \<Rightarrow> (r # rs, w2)))"

text \<open>The methods of a gift item, called on the object at a reference.\<close>

definition call_purchase :: "ref \<Rightarrow> world \<Rightarrow> (error + unit) \<times> world" where
  "call_purchase r w =
     (case GiftItem_purchase (heap w r) (conn w) of
        (res, g', db') \<Rightarrow> (res, w\<lparr>heap := (heap w)(r := g'), conn := db'\<rparr>))"

definition call_remove :: "ref \<Rightarrow> world \<Rightarrow> world" where
  "call_remove r w =
     (case GiftItem_remove (heap w r) (conn w) of
        (g', db') \<Rightarrow> w\<lparr>heap := (heap w)(r := g'), conn := db'\<rparr>)"

text \<open>\<open>gift.product.purchase()\<close> on the product of the object at a reference.\<close>

definition call_product_purchase :: "ref \<Rightarrow> world \<Rightarrow> (error + unit) \<times> world" where
  "call_product_purchase r w =
     (case Product_purchase (product (heap w r)) (conn w) of
        (res, p', db') \<Rightarrow>
          (res, w\<lparr>heap := (heap w)(r := (heap w r)\<lparr>product := p'\<rparr>), conn := db'\<rparr>))"

definition call_get_new_gift_item :: "Product \<Rightarrow> world \<Rightarrow> ref \<times> world" where
  "call_get_new_gift_item the_product w =
     (case get_new_gift_item (conn w) the_product of
        (g, db') \<Rightarrow> alloc g (w\<lparr>conn := db'\<rparr>))"

definition call_get_wedding_gifts :: "world \<Rightarrow> (error + ref list) \<times> world" where
  "call_get_wedding_gifts w =
     (case get_wedding_gifts (conn w) of
        Inl e \<Rightarrow> (Inl e, w)
      | Inr gs \<Rightarrow> (case alloc_all gs w of (rs, w') \<Rightarrow> (Inr rs, w')))"

subsection \<open>The list's own methods\<close>

text \<open>\<open>list.index\<close>: the first position holding the item, or \<open>ValueError\<close>.\<close>

fun list_index :: "ref list \<Rightarrow> ref \<Rightarrow> error + nat" where
  "list_index [] x = Inl ValueError"
| "list_index (y # ys) x =
     (if y = x then Inr 0
      else (case list_index ys x of Inl e \<Rightarrow> Inl e | Inr i \<Rightarrow> Inr (Suc i)))"

definition purchase_gift :: "ref list \<Rightarrow> ref \<Rightarrow> world \<Rightarrow> (error + unit) \<times> world" where
  "purchase_gift self gift w =
     (case list_index self gift of
        Inl e \<Rightarrow> (Inl e, w)
      | Inr i \<Rightarrow> call_purchase (self ! i) w)"

definition get_purchased_gift :: "ref list \<Rightarrow> world \<Rightarrow> ref list" where
  "get_purchased_gift self w = filter (\<lambda>a. purchased (heap w a)) self"

definition get_non_purchased_gift :: "ref list \<Rightarrow> world \<Rightarrow> ref list" where
  "get_non_purchased_gift self w = filter (\<lambda>a. \<not> purchased (heap w a)) self"

subsection \<open>Runs of operations\<close>

text \<open>
  The operations of the model that touch a gift item or the gift table, as a caller may
  issue them one after another.
\<close>

datatype operation =
    Op_purchase ref
  | Op_remove ref
  | Op_product_purchase ref
  | Op_purchase_gift "ref list" ref
  | Op_get_new_gift_item Product
  | Op_get_wedding_gifts

fun perform :: "operation \<Rightarrow> world \<Rightarrow> (error + unit) \<times> world" where
  "perform (Op_purchase r) w = call_purchase r w"
| "perform (Op_remove r) w = (Inr (), call_remove r w)"
| "perform (Op_product_purchase r) w = call_product_purchase r w"
| "perform (Op_purchase_gift self gift) w = purchase_gift self gift w"
| "perform (Op_get_new_gift_item p) w = (Inr (), snd (call_get_new_gift_item p w))"
| "perform Op_get_wedding_gifts w =
     (case call_get_wedding_gifts w of
        (Inl e, w') \<Rightarrow> (Inl e, w')
      | (Inr rs, w') \<Rightarrow> (Inr (), w'))"

definition run :: "operation list \<Rightarrow> world \<Rightarrow> world" where
  "run ops w = foldl (\<lambda>w' op. snd (perform op w')) w ops"

section \<open>Bootstrap\<close>

text \<open>
  \<open>gift.price / 100.\<close>: true division by a float gives a float. The quotient is taken
  exactly; rounding to the nearest double is left out.
\<close>

fun true_div_100 :: "pyval \<Rightarrow> error + rat" where
  "true_div_100 (IntV n) = Inr (of_int n / 100)"
| "true_div_100 (FloatV x) = Inr (x / 100)"
| "true_div_100 (StrV s) = Inl TypeError"

text \<open>
  \<open>schema.sql\<close> is not among the sources. The type it declares for the \<open>price\<close> column
  decides what a stored float becomes; this conversion is the parameter \<open>aff\<close> of
  \<open>init_db\<close>. Two conversions of SQLite: a column of integer or numeric affinity turns a
  float without fractional part into an integer and keeps any other float; a column of
  real affinity, or of none, keeps every float.
\<close>

definition integer_affinity :: "rat \<Rightarrow> pyval" where
  "integer_affinity x = (if x = of_int \<lfloor>x\<rfloor> then IntV \<lfloor>x\<rfloor> else FloatV x)"

definition real_affinity :: "rat \<Rightarrow> pyval" where
  "real_affinity x = FloatV x"

text \<open>
  Modelled from the spec: \<open>schema.sql\<close>, which \<open>executescript\<close> runs, creates the
  products table and the wedding-gift table of the persisted state layout, both empty.
  \<open>executescript\<close> commits what is pending before it runs the script.
\<close>

definition executescript_schema :: "database \<Rightarrow> database" where
  "executescript_schema db = commit (execute CREATE_tables (commit db))"

text \<open>The loop \<open>for gift in gift_repo\<close> of \<open>init_db\<close>.\<close>

fun insert_products ::
  "(rat \<Rightarrow> pyval) \<Rightarrow> product_object list \<Rightarrow> database \<Rightarrow> (error + unit) \<times> database" where
  "insert_products aff [] db = (Inr (), db)"
| "insert_products aff (Bare # gift_repo) db = (Inl AttributeError, db)"
| "insert_products aff (Built gift # gift_repo) db =
     (case true_div_100 (price gift) of
        Inl e \<Rightarrow> (Inl e, db)
      | Inr x \<Rightarrow>
          (case execute_INSERT_products
                  \<lparr>p_rowid = product_id gift, p_name = name gift, p_brand = brand gift,
                   p_price = aff x, p_in_stock_quantity = in_stock_quantity gift\<rparr> db of
             Inl e \<Rightarrow> (Inl e, db)
           | Inr db' \<Rightarrow> insert_products aff gift_repo db'))"

definition init_db ::
  "(rat \<Rightarrow> pyval) \<Rightarrow> description list \<Rightarrow> database \<Rightarrow> (error + unit) \<times> database" where
  "init_db aff repo_file db =
     (if has_schema db then (Inr (), db)
      else
        (let db1 = executescript_schema db in
         case get_example_gift_repository repo_file of
           Inl e \<Rightarrow> (Inl e, db1)
         | Inr gift_repo \<Rightarrow>
             (case insert_products aff gift_repo db1 of
                (Inl e, db2) \<Rightarrow> (Inl e, db2)
              | (Inr _, db2) \<Rightarrow> (Inr (), commit db2))))"

section \<open>Derived descriptions\<close>

text \<open>The product a row of the products table is loaded as.\<close>

definition product_of_row :: "product_row \<Rightarrow> Product" where
  "product_of_row r =
     \<lparr>product_id = p_rowid r, name = p_name r, brand = p_brand r, price = p_price r,
      in_stock_quantity = p_in_stock_quantity r\<rparr>"

section \<open>Example data\<close>

definition tea_pot_row :: product_row where
  "tea_pot_row =
     \<lparr>p_rowid = 1, p_name = ''Tea pot'', p_brand = ''Le Creuset'', p_price = IntV 4700,
      p_in_stock_quantity = 2\<rparr>"

definition lamp_row :: product_row where
  "lamp_row =
     \<lparr>p_rowid = 18, p_name = ''Usha Mango Wood Lamp Base'', p_brand = ''John Lewis'',
      p_price = IntV 6000, p_in_stock_quantity = 0\<rparr>"

definition example_db :: database where
  "example_db =
     \<lparr>has_schema = True, products = [tea_pot_row, lamp_row],
      wedding_gift =
        [\<lparr>g_rowid = 1, g_product_id = 1, g_purchased = 0\<rparr>,
         \<lparr>g_rowid = 2, g_product_id = 18, g_purchased = 0\<rparr>],
      pending = [], committed = []\<rparr>"

definition tea_pot_gift :: GiftItem where
  "tea_pot_gift = \<lparr>gift_id = 1, product = product_of_row tea_pot_row, purchased = False\<rparr>"

definition lamp_gift :: GiftItem where
  "lamp_gift = \<lparr>gift_id = 2, product = product_of_row lamp_row, purchased = False\<rparr>"

text \<open>The example store after the lamp's row has left the products table.\<close>

definition orphan_db :: database where
  "orphan_db = example_db\<lparr>products := [tea_pot_row]\<rparr>"

text \<open>
  A catalogue entry for the tea pot with the given \<open>int_price\<close> and \<open>price\<close> entries,
  and the product it is built as when its price comes out as \<open>p\<close>.
\<close>

definition catalogue_entry :: "pyval option \<Rightarrow> pyval option \<Rightarrow> description" where
  "catalogue_entry int_price_entry price_entry =
     \<lparr>key_id = Some 1, key_name = Some ''Tea pot'', key_brand = Some ''Le Creuset'',
      key_int_price = int_price_entry, key_price = price_entry,
      key_in_stock_quantity = Some 2, other_keys = []\<rparr>"

definition tea_pot_priced :: "pyval \<Rightarrow> Product" where
  "tea_pot_priced p =
     \<lparr>product_id = 1, name = ''Tea pot'', brand = ''Le Creuset'', price = p,
      in_stock_quantity = 2\<rparr>"

text \<open>
  A world with no gift item object yet (\<open>no_object\<close> fills the addresses that hold
  none), and the world after the wedding gifts have been loaded from the example store
  twice: the objects at \<open>0\<close> and \<open>1\<close> come from the first load, those at \<open>2\<close> and
  \<open>3\<close> from the second.
\<close>

definition no_object :: GiftItem where
  "no_object =
     \<lparr>gift_id = 0,
      product = \<lparr>product_id = 0, name = [], brand = [], price = IntV 0,
                 in_stock_quantity = 0\<rparr>,
      purchased = False\<rparr>"

definition example_world :: world where
  "example_world = \<lparr>heap = (\<lambda>_. no_object), next_ref = 0, conn = example_db\<rparr>"

definition loaded_twice :: world where
  "loaded_twice = snd (call_get_wedding_gifts (snd (call_get_wedding_gifts example_world)))"

text \<open>The operations that are a purchase of the gift item object \<open>r\<close>.\<close>

definition purchases :: "operation \<Rightarrow> ref \<Rightarrow> bool" where
  "purchases op r \<longleftrightarrow> op = Op_purchase r \<or> (\<exists>self. op = Op_purchase_gift self r)"

text \<open>A connection to a database file that has no table yet.\<close>

definition fresh_db :: database where
  "fresh_db =
     \<lparr>has_schema = False, products = [], wedding_gift = [], pending = [], committed = []\<rparr>"

section \<open>Loading products: what the loaders compute\<close>

lemma Product_fields_row_dict: "Product_fields (row_dict r) = Inr (product_of_row r)"
  by (simp add: Product_fields_def row_dict_def price_of_def product_of_row_def)

lemma Product_init_row_dict:
  "Product_init (Some (row_dict r)) = Inr (Built (product_of_row r))"
  by (simp add: Product_init_def Product_fields_row_dict)
     (simp add: dict_truthy_def row_dict_def)

lemma collect_map_Inr: "collect (map (\<lambda>x. Inr (f x)) xs) = Inr (map f xs)"
  by (induction xs) simp_all

lemma get_gift_repository_rows:
  "get_gift_repository db = Inr (map product_of_row (products db))"
  by (simp add: get_gift_repository_def Product_fields_row_dict collect_map_Inr)

lemma filter_product_of_row:
  "filter (\<lambda>p. product_id p = pid) (map product_of_row rows) =
   map product_of_row (filter (\<lambda>r. p_rowid r = pid) rows)"
  by (induction rows) (simp_all add: product_of_row_def)

lemma get_product_by_id_rows:
  "get_product_by_id db pid =
     (case filter (\<lambda>r. p_rowid r = pid) (products db) of
        [] \<Rightarrow> Inl UnknownProduct
      | r # _ \<Rightarrow> Inr (product_of_row r))"
  by (simp add: get_product_by_id_def get_gift_repository_rows filter_product_of_row
      split: list.splits)

section \<open>Product.purchase\<close>

lemma Product_purchase_in_stock:
  "0 < in_stock_quantity p \<Longrightarrow>
   Product_purchase p db =
     (Inr (), p\<lparr>in_stock_quantity := in_stock_quantity p - 1\<rparr>,
      commit (execute (UPDATE_products (in_stock_quantity p - 1) (product_id p)) db))"
  by (simp add: Product_purchase_def Let_def)

lemma Product_purchase_no_stock:
  "\<not> 0 < in_stock_quantity p \<Longrightarrow> Product_purchase p db = (Inl OutOfStock, p, db)"
  by (simp add: Product_purchase_def)

lemma products_commit_execute_UPDATE_products:
  "products (commit (execute (UPDATE_products q rid) db)) =
   map (\<lambda>r. if p_rowid r = rid then r\<lparr>p_in_stock_quantity := q\<rparr> else r) (products db)"
  by (simp add: commit_def execute_def)

lemma journal_commit_execute:
  "committed (commit (execute st db)) = committed db @ pending db @ [st]"
  "pending (commit (execute st db)) = []"
  by (cases st; simp add: commit_def execute_def)+

lemma filter_update_stock:
  "filter (\<lambda>r. p_rowid r = rid)
     (map (\<lambda>r. if p_rowid r = rid then r\<lparr>p_in_stock_quantity := q\<rparr> else r) rows) =
   map (\<lambda>r. r\<lparr>p_in_stock_quantity := q\<rparr>) (filter (\<lambda>r. p_rowid r = rid) rows)"
  by (induction rows) simp_all

lemma reload_after_update:
  assumes "rid \<in> p_rowid ` set (products db)"
  shows "\<exists>p. get_product_by_id (commit (execute (UPDATE_products q rid) db)) rid = Inr p \<and>
             in_stock_quantity p = q \<and> product_id p = rid"
proof -
  from assms have "filter (\<lambda>r. p_rowid r = rid) (products db) \<noteq> []"
    by (auto simp: filter_empty_conv)
  then obtain r rs where "filter (\<lambda>r. p_rowid r = rid) (products db) = r # rs"
    by (cases "filter (\<lambda>r. p_rowid r = rid) (products db)") auto
  moreover have "p_rowid r = rid"
  proof -
    have "r \<in> set (filter (\<lambda>r. p_rowid r = rid) (products db))"
      using calculation by simp
    then show ?thesis by simp
  qed
  ultimately show ?thesis
    by (simp add: get_product_by_id_rows products_commit_execute_UPDATE_products
        filter_update_stock product_of_row_def)
qed

text \<open>
  C1. On a product whose stock is not negative, \<open>purchase\<close> raises \<open>OutOfStock\<close> exactly
  when the stock is \<open>0\<close>. It then leaves the object and the connection as they were: no
  statement is executed, none is committed. On a stock \<open>N > 0\<close> it returns with the
  object's stock at \<open>N - 1\<close> and every other attribute unchanged; the one statement it
  executes, the update of the row of this product to \<open>N - 1\<close>, is committed when it
  returns, no other row id appears or disappears, and when the product has a row,
  loading the product by its id again gives the stock \<open>N - 1\<close>. In both cases the
  stock is not negative afterwards.
\<close>

theorem Product_purchase_spec:
  assumes "0 \<le> in_stock_quantity p"
  shows "(fst (Product_purchase p db) = Inl OutOfStock \<longleftrightarrow> in_stock_quantity p = 0) \<and>
         (in_stock_quantity p = 0 \<longrightarrow> Product_purchase p db = (Inl OutOfStock, p, db)) \<and>
         (0 < in_stock_quantity p \<longrightarrow>
            (\<exists>db'. Product_purchase p db =
                     (Inr (), p\<lparr>in_stock_quantity := in_stock_quantity p - 1\<rparr>, db') \<and>
                   (\<forall>r \<in> set (products db').
                      p_rowid r = product_id p \<longrightarrow>
                      p_in_stock_quantity r = in_stock_quantity p - 1) \<and>
                   map p_rowid (products db') = map p_rowid (products db) \<and>
                   wedding_gift db' = wedding_gift db \<and>
                   pending db' = [] \<and>
                   committed db' =
                     committed db @ pending db @
                     [UPDATE_products (in_stock_quantity p - 1) (product_id p)] \<and>
                   (product_id p \<in> p_rowid ` set (products db) \<longrightarrow>
                      (\<exists>p'. get_product_by_id db' (product_id p) = Inr p' \<and>
                            in_stock_quantity p' = in_stock_quantity p - 1)))) \<and>
         0 \<le> in_stock_quantity (fst (snd (Product_purchase p db)))"
proof (intro conjI impI)
  show "0 \<le> in_stock_quantity (fst (snd (Product_purchase p db)))"
    using assms by (cases "0 < in_stock_quantity p")
      (simp_all add: Product_purchase_in_stock Product_purchase_no_stock)
next
  show "fst (Product_purchase p db) = Inl OutOfStock \<longleftrightarrow> in_stock_quantity p = 0"
    using assms by (cases "0 < in_stock_quantity p")
      (simp_all add: Product_purchase_in_stock Product_purchase_no_stock)
next
  assume "in_stock_quantity p = 0"
  then show "Product_purchase p db = (Inl OutOfStock, p, db)"
    by (simp add: Product_purchase_no_stock)
next
  assume pos: "0 < in_stock_quantity p"
  let ?q = "in_stock_quantity p - 1"
  let ?db = "commit (execute (UPDATE_products ?q (product_id p)) db)"
  have "Product_purchase p db = (Inr (), p\<lparr>in_stock_quantity := ?q\<rparr>, ?db)"
    using pos by (rule Product_purchase_in_stock)
  moreover have "\<forall>r \<in> set (products ?db).
      p_rowid r = product_id p \<longrightarrow> p_in_stock_quantity r = ?q"
    by (auto simp: products_commit_execute_UPDATE_products)
  moreover have "map p_rowid (products ?db) = map p_rowid (products db)"
    by (simp add: products_commit_execute_UPDATE_products o_def if_distrib cong: if_cong)
  moreover have "wedding_gift ?db = wedding_gift db"
    by (simp add: commit_def execute_def)
  moreover have "pending ?db = []"
    "committed ?db = committed db @ pending db @ [UPDATE_products ?q (product_id p)]"
    by (simp_all add: journal_commit_execute)
  moreover have "product_id p \<in> p_rowid ` set (products db) \<longrightarrow>
      (\<exists>p'. get_product_by_id ?db (product_id p) = Inr p' \<and> in_stock_quantity p' = ?q)"
    using reload_after_update[of "product_id p" db ?q] by blast
  ultimately show "\<exists>db'. Product_purchase p db =
                     (Inr (), p\<lparr>in_stock_quantity := in_stock_quantity p - 1\<rparr>, db') \<and>
                   (\<forall>r \<in> set (products db').
                      p_rowid r = product_id p \<longrightarrow>
                      p_in_stock_quantity r = in_stock_quantity p - 1) \<and>
                   map p_rowid (products db') = map p_rowid (products db) \<and>
                   wedding_gift db' = wedding_gift db \<and>
                   pending db' = [] \<and>
                   committed db' =
                     committed db @ pending db @
                     [UPDATE_products (in_stock_quantity p - 1) (product_id p)] \<and>
                   (product_id p \<in> p_rowid ` set (products db) \<longrightarrow>
                      (\<exists>p'. get_product_by_id db' (product_id p) = Inr p' \<and>
                            in_stock_quantity p' = in_stock_quantity p - 1))"
    by blast
qed

theorem Product_purchase_spec_witness:
  "0 \<le> in_stock_quantity (product_of_row tea_pot_row) \<and>
   0 \<le> in_stock_quantity (product_of_row lamp_row) \<and>
   product_id (product_of_row tea_pot_row) \<in> p_rowid ` set (products example_db) \<and>
   fst (Product_purchase (product_of_row tea_pot_row) example_db) = Inr () \<and>
   in_stock_quantity (fst (snd (Product_purchase (product_of_row tea_pot_row) example_db))) = 1 \<and>
   map p_in_stock_quantity
     (products (snd (snd (Product_purchase (product_of_row tea_pot_row) example_db)))) =
     [1, 0] \<and>
   committed (snd (snd (Product_purchase (product_of_row tea_pot_row) example_db))) =
     [UPDATE_products 1 1] \<and>
   Product_purchase (product_of_row lamp_row) example_db =
     (Inl OutOfStock, product_of_row lamp_row, example_db)"
  using Product_purchase_spec[of "product_of_row tea_pot_row" example_db]
    Product_purchase_spec[of "product_of_row lamp_row" example_db]
  by (simp add: product_of_row_def tea_pot_row_def lamp_row_def example_db_def
      Product_purchase_def execute_def commit_def Let_def)

section \<open>GiftItem.purchase\<close>

lemma tables_commit_execute_UPDATE_wedding_gift:
  "products (commit (execute (UPDATE_wedding_gift v rid) db)) = products db"
  "wedding_gift (commit (execute (UPDATE_wedding_gift v rid) db)) =
   map (\<lambda>r. if g_rowid r = rid then r\<lparr>g_purchased := v\<rparr> else r) (wedding_gift db)"
  by (simp_all add: commit_def execute_def)

lemma wedding_gift_commit_execute_UPDATE_products:
  "wedding_gift (commit (execute (UPDATE_products q rid) db)) = wedding_gift db"
  by (simp add: commit_def execute_def)

lemma GiftItem_purchase_no_stock:
  "\<not> 0 < in_stock_quantity (product g) \<Longrightarrow>
   GiftItem_purchase g db = (Inl OutOfStock, g, db)"
  by (simp add: GiftItem_purchase_def Product_purchase_no_stock)

lemma GiftItem_purchase_in_stock:
  "0 < in_stock_quantity (product g) \<Longrightarrow>
   GiftItem_purchase g db =
     (Inr (),
      g\<lparr>product := (product g)\<lparr>in_stock_quantity := in_stock_quantity (product g) - 1\<rparr>,
        purchased := True\<rparr>,
      commit (execute (UPDATE_wedding_gift 1 (gift_id g))
        (commit (execute
           (UPDATE_products (in_stock_quantity (product g) - 1) (product_id (product g)))
           db))))"
  by (simp add: GiftItem_purchase_def Product_purchase_in_stock Let_def)

text \<open>
  C2. \<open>GiftItem.purchase\<close> runs the purchase of its product first. When that raises
  (\<open>OutOfStock\<close>, on a stock that is not positive), the gift's purchase raises the same
  error and leaves the gift item and the connection exactly as they were: the flag keeps
  its value, so a false flag stays false, and no statement is executed or committed.
  When the product's purchase returns, the gift item carries the product as that
  purchase left it and the flag \<open>True\<close>; the flag update of the rows with the gift's id
  is committed after the stock update, as the last entry of the durable journal, and it
  changes nothing in the products table.
\<close>

theorem GiftItem_purchase_spec:
  "(\<not> 0 < in_stock_quantity (product g) \<longrightarrow>
      Product_purchase (product g) db = (Inl OutOfStock, product g, db) \<and>
      GiftItem_purchase g db = (Inl OutOfStock, g, db)) \<and>
   (0 < in_stock_quantity (product g) \<longrightarrow>
      (\<exists>p' db1 db2.
         Product_purchase (product g) db = (Inr (), p', db1) \<and>
         GiftItem_purchase g db = (Inr (), g\<lparr>product := p', purchased := True\<rparr>, db2) \<and>
         committed db1 =
           committed db @ pending db @
           [UPDATE_products (in_stock_quantity (product g) - 1) (product_id (product g))] \<and>
         pending db1 = [] \<and>
         committed db2 = committed db1 @ [UPDATE_wedding_gift 1 (gift_id g)] \<and>
         pending db2 = [] \<and>
         products db2 = products db1 \<and>
         wedding_gift db2 =
           map (\<lambda>r. if g_rowid r = gift_id g then r\<lparr>g_purchased := 1\<rparr> else r)
             (wedding_gift db)))"
proof (intro conjI impI)
  assume "\<not> 0 < in_stock_quantity (product g)"
  then show "Product_purchase (product g) db = (Inl OutOfStock, product g, db)"
    and "GiftItem_purchase g db = (Inl OutOfStock, g, db)"
    by (simp_all add: Product_purchase_no_stock GiftItem_purchase_no_stock)
next
  assume pos: "0 < in_stock_quantity (product g)"
  let ?q = "in_stock_quantity (product g) - 1"
  let ?db1 = "commit (execute (UPDATE_products ?q (product_id (product g))) db)"
  let ?db2 = "commit (execute (UPDATE_wedding_gift 1 (gift_id g)) ?db1)"
  have 1: "Product_purchase (product g) db =
          (Inr (), (product g)\<lparr>in_stock_quantity := ?q\<rparr>, ?db1)"
    using pos by (rule Product_purchase_in_stock)
  have 2: "GiftItem_purchase g db =
          (Inr (), g\<lparr>product := (product g)\<lparr>in_stock_quantity := ?q\<rparr>, purchased := True\<rparr>,
           ?db2)"
    using pos by (rule GiftItem_purchase_in_stock)
  have 3: "committed ?db1 =
      committed db @ pending db @ [UPDATE_products ?q (product_id (product g))]"
    and 4: "pending ?db1 = []"
    by (simp_all add: journal_commit_execute)
  have 5: "committed ?db2 = committed ?db1 @ [UPDATE_wedding_gift 1 (gift_id g)]"
    and 6: "pending ?db2 = []"
    by (simp_all add: journal_commit_execute)
  have 7: "products ?db2 = products ?db1"
    by (simp add: tables_commit_execute_UPDATE_wedding_gift)
  have 8: "wedding_gift ?db2 =
      map (\<lambda>r. if g_rowid r = gift_id g then r\<lparr>g_purchased := 1\<rparr> else r) (wedding_gift db)"
    by (simp add: tables_commit_execute_UPDATE_wedding_gift
        wedding_gift_commit_execute_UPDATE_products)
  show "\<exists>p' db1 db2.
         Product_purchase (product g) db = (Inr (), p', db1) \<and>
         GiftItem_purchase g db = (Inr (), g\<lparr>product := p', purchased := True\<rparr>, db2) \<and>
         committed db1 =
           committed db @ pending db @
           [UPDATE_products (in_stock_quantity (product g) - 1) (product_id (product g))] \<and>
         pending db1 = [] \<and>
         committed db2 = committed db1 @ [UPDATE_wedding_gift 1 (gift_id g)] \<and>
         pending db2 = [] \<and>
         products db2 = products db1 \<and>
         wedding_gift db2 =
           map (\<lambda>r. if g_rowid r = gift_id g then r\<lparr>g_purchased := 1\<rparr> else r)
             (wedding_gift db)"
    using 1 2 3 4 5 6 7 8 by (intro exI conjI)
qed

theorem GiftItem_purchase_spec_witness:
  "0 < in_stock_quantity (product tea_pot_gift) \<and>
   \<not> 0 < in_stock_quantity (product lamp_gift) \<and>
   GiftItem_purchase lamp_gift example_db = (Inl OutOfStock, lamp_gift, example_db) \<and>
   fst (GiftItem_purchase tea_pot_gift example_db) = Inr () \<and>
   purchased (fst (snd (GiftItem_purchase tea_pot_gift example_db))) \<and>
   committed (snd (snd (GiftItem_purchase tea_pot_gift example_db))) =
     [UPDATE_products 1 1, UPDATE_wedding_gift 1 1] \<and>
   map g_purchased (wedding_gift (snd (snd (GiftItem_purchase tea_pot_gift example_db)))) =
     [1, 0]"
  using GiftItem_purchase_spec[of tea_pot_gift example_db]
    GiftItem_purchase_spec[of lamp_gift example_db]
  by (simp add: tea_pot_gift_def lamp_gift_def product_of_row_def tea_pot_row_def
      lamp_row_def example_db_def GiftItem_purchase_def Product_purchase_def execute_def
      commit_def Let_def)

section \<open>Loading products and wedding gifts\<close>

lemma collect_all_Inr:
  "\<forall>x \<in> set xs. \<exists>v. f x = Inr v \<Longrightarrow> collect (map f xs) = Inr (map (\<lambda>x. projr (f x)) xs)"
  by (induction xs) auto

lemma collect_some_Inl:
  "\<exists>x \<in> set xs. f x = Inl e \<Longrightarrow> \<forall>x \<in> set xs. \<forall>e'. f x = Inl e' \<longrightarrow> e' = e \<Longrightarrow>
   collect (map f xs) = Inl e"
proof (induction xs)
  case Nil
  then show ?case by simp
next
  case (Cons a xs)
  show ?case
  proof (cases "f a")
    case (Inl e')
    with Cons.prems(2) have "e' = e" by simp
    with Inl show ?thesis by simp
  next
    case (Inr v)
    with Cons.prems(1) have "\<exists>x \<in> set xs. f x = Inl e" by auto
    moreover from Cons.prems(2) have "\<forall>x \<in> set xs. \<forall>e'. f x = Inl e' \<longrightarrow> e' = e" by simp
    ultimately have "collect (map f xs) = Inl e" by (rule Cons.IH)
    with Inr show ?thesis by simp
  qed
qed

lemma get_product_by_id_found:
  assumes "pid \<in> p_rowid ` set (products db)"
  shows "\<exists>r \<in> set (products db). p_rowid r = pid \<and> get_product_by_id db pid = Inr (product_of_row r)"
proof -
  from assms have "filter (\<lambda>r. p_rowid r = pid) (products db) \<noteq> []"
    by (auto simp: filter_empty_conv)
  then obtain r rs where eq: "filter (\<lambda>r. p_rowid r = pid) (products db) = r # rs"
    by (cases "filter (\<lambda>r. p_rowid r = pid) (products db)") auto
  have "r \<in> set (filter (\<lambda>r. p_rowid r = pid) (products db))"
    using eq by simp
  then have "r \<in> set (products db)" "p_rowid r = pid" by simp_all
  then show ?thesis using eq by (auto simp: get_product_by_id_rows)
qed

lemma get_product_by_id_missing:
  assumes "pid \<notin> p_rowid ` set (products db)"
  shows "get_product_by_id db pid = Inl UnknownProduct"
proof -
  from assms have "filter (\<lambda>r. p_rowid r = pid) (products db) = []"
    by (auto simp: filter_empty_conv)
  then show ?thesis by (simp add: get_product_by_id_rows)
qed

lemma get_product_by_id_error:
  "get_product_by_id db pid = Inl e \<Longrightarrow> e = UnknownProduct"
  by (simp add: get_product_by_id_rows split: list.splits)

lemma gift_of_row_found:
  assumes "g_product_id g \<in> p_rowid ` set (products db)"
  shows "\<exists>p. get_product_by_id db (g_product_id g) = Inr p \<and>
             gift_of_row db g =
               Inr \<lparr>gift_id = g_rowid g, product = p, purchased = (0 < g_purchased g)\<rparr>"
proof -
  from get_product_by_id_found[OF assms]
  obtain p where "get_product_by_id db (g_product_id g) = Inr p" by blast
  then show ?thesis by (simp add: gift_of_row_def)
qed

lemma gift_of_row_missing:
  "g_product_id g \<notin> p_rowid ` set (products db) \<Longrightarrow> gift_of_row db g = Inl UnknownProduct"
  by (simp add: gift_of_row_def get_product_by_id_missing)

lemma gift_of_row_error: "gift_of_row db g = Inl e \<Longrightarrow> e = UnknownProduct"
  by (cases "get_product_by_id db (g_product_id g)")
     (simp_all add: gift_of_row_def get_product_by_id_error)

text \<open>
  C5. \<open>get_product_by_id\<close> returns the product of a row whose id is the requested one
  when the products table has such a row, and raises \<open>UnknownProduct\<close> when it has
  none. \<open>get_wedding_gifts\<close> raises \<open>UnknownProduct\<close> as soon as one gift row refers
  to a product id the products table lacks; otherwise it returns one gift item per gift
  row, in row order, each with the row's id, the flag of the row, and the product that
  \<open>get_product_by_id\<close> finds for the row.
\<close>

theorem load_spec:
  "(pid \<in> p_rowid ` set (products db) \<longrightarrow>
      (\<exists>r \<in> set (products db).
         p_rowid r = pid \<and> get_product_by_id db pid = Inr (product_of_row r))) \<and>
   (pid \<notin> p_rowid ` set (products db) \<longrightarrow> get_product_by_id db pid = Inl UnknownProduct) \<and>
   ((\<exists>g \<in> set (wedding_gift db). g_product_id g \<notin> p_rowid ` set (products db)) \<longrightarrow>
      get_wedding_gifts db = Inl UnknownProduct) \<and>
   ((\<forall>g \<in> set (wedding_gift db). g_product_id g \<in> p_rowid ` set (products db)) \<longrightarrow>
      (\<exists>gs. get_wedding_gifts db = Inr gs \<and>
            map gift_id gs = map g_rowid (wedding_gift db) \<and>
            map purchased gs = map (\<lambda>g. 0 < g_purchased g) (wedding_gift db) \<and>
            map (\<lambda>g. Inr (product g)) gs =
              map (\<lambda>g. get_product_by_id db (g_product_id g)) (wedding_gift db)))"
proof (intro conjI impI)
  assume "pid \<in> p_rowid ` set (products db)"
  then show "\<exists>r \<in> set (products db).
         p_rowid r = pid \<and> get_product_by_id db pid = Inr (product_of_row r)"
    by (rule get_product_by_id_found)
next
  assume "pid \<notin> p_rowid ` set (products db)"
  then show "get_product_by_id db pid = Inl UnknownProduct"
    by (rule get_product_by_id_missing)
next
  assume "\<exists>g \<in> set (wedding_gift db). g_product_id g \<notin> p_rowid ` set (products db)"
  then obtain g where "g \<in> set (wedding_gift db)" "gift_of_row db g = Inl UnknownProduct"
    using gift_of_row_missing by blast
  then have "\<exists>g \<in> set (wedding_gift db). gift_of_row db g = Inl UnknownProduct"
    by blast
  moreover have "\<forall>g \<in> set (wedding_gift db).
      \<forall>e'. gift_of_row db g = Inl e' \<longrightarrow> e' = UnknownProduct"
    using gift_of_row_error by blast
  ultimately show "get_wedding_gifts db = Inl UnknownProduct"
    unfolding get_wedding_gifts_def by (rule collect_some_Inl)
next
  assume all: "\<forall>g \<in> set (wedding_gift db). g_product_id g \<in> p_rowid ` set (products db)"
  let ?gs = "map (\<lambda>g. projr (gift_of_row db g)) (wedding_gift db)"
  have row: "\<exists>p. get_product_by_id db (g_product_id g) = Inr p \<and>
             gift_of_row db g =
               Inr \<lparr>gift_id = g_rowid g, product = p, purchased = (0 < g_purchased g)\<rparr>"
    if "g \<in> set (wedding_gift db)" for g
    using all that by (simp add: gift_of_row_found)
  have "\<forall>g \<in> set (wedding_gift db). \<exists>v. gift_of_row db g = Inr v"
    using row by blast
  then have eq: "get_wedding_gifts db = Inr ?gs"
    unfolding get_wedding_gifts_def by (rule collect_all_Inr)
  have a: "gift_id (projr (gift_of_row db g)) = g_rowid g"
    and b: "purchased (projr (gift_of_row db g)) = (0 < g_purchased g)"
    and c: "Inr (product (projr (gift_of_row db g))) = get_product_by_id db (g_product_id g)"
    if "g \<in> set (wedding_gift db)" for g
    using row[OF that] by auto
  have m1: "map gift_id ?gs = map g_rowid (wedding_gift db)"
    by (simp add: a)
  have m2: "map purchased ?gs = map (\<lambda>g. 0 < g_purchased g) (wedding_gift db)"
    by (simp add: b)
  have m3: "map (\<lambda>g. Inr (product g)) ?gs =
              map (\<lambda>g. get_product_by_id db (g_product_id g)) (wedding_gift db)"
    by (simp add: c)
  show "\<exists>gs. get_wedding_gifts db = Inr gs \<and>
            map gift_id gs = map g_rowid (wedding_gift db) \<and>
            map purchased gs = map (\<lambda>g. 0 < g_purchased g) (wedding_gift db) \<and>
            map (\<lambda>g. Inr (product g)) gs =
              map (\<lambda>g. get_product_by_id db (g_product_id g)) (wedding_gift db)"
    by (rule exI[of _ ?gs]) (simp only: eq m1 m2 m3 simp_thms)
qed

theorem load_spec_witness:
  "1 \<in> p_rowid ` set (products example_db) \<and>
   get_product_by_id example_db 1 = Inr (product_of_row tea_pot_row) \<and>
   7 \<notin> p_rowid ` set (products example_db) \<and>
   get_product_by_id example_db 7 = Inl UnknownProduct \<and>
   get_wedding_gifts orphan_db = Inl UnknownProduct \<and>
   get_wedding_gifts example_db = Inr [tea_pot_gift, lamp_gift]"
  using load_spec[of 1 example_db] load_spec[of 7 example_db] load_spec[of 1 orphan_db]
  by (simp add: get_wedding_gifts_def gift_of_row_def get_product_by_id_rows
      orphan_db_def example_db_def tea_pot_row_def lamp_row_def tea_pot_gift_def
      lamp_gift_def product_of_row_def)

section \<open>The price pattern and the constructor\<close>

lemma not_digit_dot [simp]: "\<not> is_digit CHR ''.''"
  by (simp add: is_digit_def)

lemma not_digit_G [simp]: "\<not> is_digit CHR ''G''"
  by (simp add: is_digit_def)

lemma digits_all: "digits s \<Longrightarrow> x \<in> set s \<Longrightarrow> is_digit x"
  by (simp add: digits_def list_all_iff)

lemma takeWhile_digits_stop:
  assumes "digits w" "\<not> is_digit c"
  shows "takeWhile is_digit (w @ c # r) = w" "dropWhile is_digit (w @ c # r) = c # r"
proof -
  have "\<And>x. x \<in> set w \<Longrightarrow> is_digit x" using assms(1) by (rule digits_all)
  then show "takeWhile is_digit (w @ c # r) = w" "dropWhile is_digit (w @ c # r) = c # r"
    using assms(2) by (simp_all add: takeWhile_append2 dropWhile_append2)
qed

lemma price_re_match_shape:
  assumes "digits whole" "digits cents"
  shows "price_re_match (price_shape whole cents rest) = Some (whole, cents)"
proof -
  have w: "whole \<noteq> []" and c: "cents \<noteq> []" using assms by (simp_all add: digits_def)
  have 1: "takeWhile is_digit (whole @ CHR ''.'' # cents @ ''GBP'' @ rest) = whole"
    and 2: "dropWhile is_digit (whole @ CHR ''.'' # cents @ ''GBP'' @ rest) =
            CHR ''.'' # cents @ ''GBP'' @ rest"
    using takeWhile_digits_stop[OF assms(1) not_digit_dot] by simp_all
  have 3: "takeWhile is_digit (cents @ CHR ''G'' # ''BP'' @ rest) = cents"
    and 4: "dropWhile is_digit (cents @ CHR ''G'' # ''BP'' @ rest) = CHR ''G'' # ''BP'' @ rest"
    using takeWhile_digits_stop[OF assms(2) not_digit_G] by simp_all
  show ?thesis
    using 1 2 3 4 w c by (simp add: price_re_match_def price_shape_def Let_def)
qed

lemma digits_takeWhile: "takeWhile is_digit s \<noteq> [] \<Longrightarrow> digits (takeWhile is_digit s)"
  by (auto simp: digits_def list_all_iff dest: set_takeWhileD)

lemma take3_GBP: "take 3 r = ''GBP'' \<Longrightarrow> r = ''GBP'' @ drop 3 r"
  by (metis append_take_drop_id)

lemma price_re_match_Some:
  assumes "price_re_match s = Some (whole, cents)"
  shows "digits whole \<and> digits cents \<and> (\<exists>rest. s = price_shape whole cents rest)"
proof -
  let ?w = "takeWhile is_digit s" and ?r = "dropWhile is_digit s"
  from assms have w: "?w \<noteq> []"
    by (auto simp: price_re_match_def Let_def split: if_splits)
  from assms w obtain r1 where r: "?r = CHR ''.'' # r1"
    by (auto simp: price_re_match_def Let_def split: if_splits list.splits)
  let ?c = "takeWhile is_digit r1" and ?r2 = "dropWhile is_digit r1"
  from assms w r have c: "?c \<noteq> []" and g: "take 3 ?r2 = ''GBP''"
    and res: "whole = ?w" "cents = ?c"
    by (auto simp: price_re_match_def Let_def split: if_splits)
  have "s = ?w @ ?r" by simp
  also have "?r = CHR ''.'' # (?c @ ?r2)" using r by simp
  also have "?r2 = ''GBP'' @ drop 3 ?r2" using g by (rule take3_GBP)
  finally have "s = price_shape ?w ?c (drop 3 ?r2)"
    by (simp add: price_shape_def)
  moreover have "digits ?w" "digits ?c" using w c by (simp_all add: digits_takeWhile)
  ultimately show ?thesis using res by blast
qed

lemma price_re_match_None_iff:
  "price_re_match s = None \<longleftrightarrow>
   \<not> (\<exists>whole cents rest. digits whole \<and> digits cents \<and> s = price_shape whole cents rest)"
proof
  assume n: "price_re_match s = None"
  show "\<not> (\<exists>whole cents rest. digits whole \<and> digits cents \<and> s = price_shape whole cents rest)"
  proof
    assume "\<exists>whole cents rest. digits whole \<and> digits cents \<and> s = price_shape whole cents rest"
    then obtain whole cents rest where "digits whole" "digits cents"
      "s = price_shape whole cents rest" by blast
    then have "price_re_match s = Some (whole, cents)" by (simp add: price_re_match_shape)
    with n show False by simp
  qed
next
  assume a: "\<not> (\<exists>whole cents rest. digits whole \<and> digits cents \<and> s = price_shape whole cents rest)"
  show "price_re_match s = None"
  proof (cases "price_re_match s")
    case None then show ?thesis .
  next
    case (Some p)
    obtain whole cents where "p = (whole, cents)" by (cases p)
    with Some have "price_re_match s = Some (whole, cents)" by simp
    from price_re_match_Some[OF this] a show ?thesis by blast
  qed
qed

lemma digit_value_range: "is_digit c \<Longrightarrow> 0 \<le> digit_value c \<and> digit_value c \<le> 9"
  by (auto simp: is_digit_def digit_value_def)

lemma py_int_snoc: "py_int (s @ [c]) = 10 * py_int s + digit_value c"
  by (simp add: py_int_def)

lemma py_int_two: "py_int [a, b] = 10 * digit_value a + digit_value b"
  by (simp add: py_int_def)

lemma py_int_two_range:
  assumes "digits cents" "length cents = 2"
  shows "0 \<le> py_int cents \<and> py_int cents < 100"
proof -
  from assms(2) obtain a b where ab: "cents = [a, b]"
    by (cases cents; cases "tl cents") auto
  with assms(1) have "is_digit a" "is_digit b" by (simp_all add: digits_def)
  then show ?thesis
    using digit_value_range[of a] digit_value_range[of b] by (simp add: ab py_int_two)
qed

lemma Product_fields_priced:
  assumes "key_id d = Some i" "key_name d = Some n" "key_brand d = Some b"
    "key_in_stock_quantity d = Some q" "price_of d = Inr p"
  shows "Product_init (Some d) =
         Inr (Built \<lparr>product_id = i, name = n, brand = b, price = p, in_stock_quantity = q\<rparr>)"
  using assms by (simp add: Product_init_def Product_fields_def dict_truthy_def)

lemma Product_init_price_error:
  assumes "dict_truthy d" "price_of d = Inl e"
  shows "\<exists>e'. Product_init (Some d) = Inl e'"
  using assms
  by (simp add: Product_init_def Product_fields_def split: option.splits)

lemma parse_price_shape:
  "digits whole \<Longrightarrow> digits cents \<Longrightarrow>
   parse_price (StrV (price_shape whole cents rest)) =
     Inr (IntV (py_int whole * 100 + py_int cents))"
  by (simp add: price_re_match_shape)

lemma parse_price_no_shape:
  "\<not> (\<exists>whole cents rest. digits whole \<and> digits cents \<and> s = price_shape whole cents rest) \<Longrightarrow>
   parse_price (StrV s) = Inl AttributeError"
  using price_re_match_None_iff[of s] by simp

text \<open>
  C10. The pattern is matched at the start of the string only and bounds no group of
  digits. Every string that begins with one or more digits, a dot, one or more digits
  and \<open>GBP\<close> is accepted, whatever follows, and the price is the integer value of the
  first group times \<open>100\<close> plus the integer value of the whole second group (the value
  \<open>int\<close> gives: each further digit multiplies by ten and adds). A price string of any
  other shape makes \<open>price_match.groups()\<close> raise, and the construction of a product
  from a description that has this price entry and no \<open>int_price\<close> entry fails.
\<close>

theorem price_pattern_spec:
  "(digits whole \<and> digits cents \<longrightarrow>
      price_re_match (price_shape whole cents rest) = Some (whole, cents) \<and>
      parse_price (StrV (price_shape whole cents rest)) =
        Inr (IntV (py_int whole * 100 + py_int cents))) \<and>
   (\<not> (\<exists>w c r. digits w \<and> digits c \<and> s = price_shape w c r) \<longrightarrow>
      parse_price (StrV s) = Inl AttributeError) \<and>
   (key_int_price d = None \<and> key_price d = Some (StrV s) \<and>
    \<not> (\<exists>w c r. digits w \<and> digits c \<and> s = price_shape w c r) \<longrightarrow>
      (\<exists>e. Product_init (Some d) = Inl e)) \<and>
   (key_int_price d = None \<and> key_price d = Some (StrV (price_shape whole cents rest)) \<and>
    digits whole \<and> digits cents \<and>
    key_id d = Some i \<and> key_name d = Some n \<and> key_brand d = Some b \<and>
    key_in_stock_quantity d = Some q \<longrightarrow>
      Product_init (Some d) =
        Inr (Built \<lparr>product_id = i, name = n, brand = b,
                    price = IntV (py_int whole * 100 + py_int cents),
                    in_stock_quantity = q\<rparr>)) \<and>
   py_int [] = 0 \<and> py_int (ds @ [c]) = 10 * py_int ds + digit_value c"
proof (intro conjI impI)
  assume "digits whole \<and> digits cents"
  then show "price_re_match (price_shape whole cents rest) = Some (whole, cents)"
    and "parse_price (StrV (price_shape whole cents rest)) =
        Inr (IntV (py_int whole * 100 + py_int cents))"
    by (simp_all add: price_re_match_shape)
next
  assume "\<not> (\<exists>w c r. digits w \<and> digits c \<and> s = price_shape w c r)"
  then show "parse_price (StrV s) = Inl AttributeError" by (rule parse_price_no_shape)
next
  assume a: "key_int_price d = None \<and> key_price d = Some (StrV s) \<and>
    \<not> (\<exists>w c r. digits w \<and> digits c \<and> s = price_shape w c r)"
  then have "\<not> (\<exists>w c r. digits w \<and> digits c \<and> s = price_shape w c r)" by blast
  then have "parse_price (StrV s) = Inl AttributeError" by (rule parse_price_no_shape)
  with a have "price_of d = Inl AttributeError" by (simp add: price_of_def)
  moreover from a have "dict_truthy d" by (simp add: dict_truthy_def)
  ultimately show "\<exists>e. Product_init (Some d) = Inl e" by (simp add: Product_init_price_error)
next
  assume a: "key_int_price d = None \<and> key_price d = Some (StrV (price_shape whole cents rest)) \<and>
    digits whole \<and> digits cents \<and>
    key_id d = Some i \<and> key_name d = Some n \<and> key_brand d = Some b \<and>
    key_in_stock_quantity d = Some q"
  then have "price_re_match (price_shape whole cents rest) = Some (whole, cents)"
    by (simp add: price_re_match_shape)
  with a have "price_of d = Inr (IntV (py_int whole * 100 + py_int cents))"
    by (simp add: price_of_def)
  with a show "Product_init (Some d) =
        Inr (Built \<lparr>product_id = i, name = n, brand = b,
                    price = IntV (py_int whole * 100 + py_int cents),
                    in_stock_quantity = q\<rparr>)"
    by (simp add: Product_fields_priced)
next
  show "py_int [] = 0" by (simp add: py_int_def)
  show "py_int (ds @ [c]) = 10 * py_int ds + digit_value c" by (rule py_int_snoc)
qed

theorem price_pattern_spec_witness:
  "digits ''12'' \<and> digits ''5'' \<and> digits ''500'' \<and>
   parse_price (StrV ''12.5GBP'') = Inr (IntV 1205) \<and>
   parse_price (StrV ''12.500GBP'') = Inr (IntV 1700) \<and>
   parse_price (StrV ''12.5GBP and more'') = Inr (IntV 1205) \<and>
   parse_price (StrV ''12.50USD'') = Inl AttributeError \<and>
   Product_init (Some (catalogue_entry None (Some (StrV ''12.50USD'')))) =
     Inl AttributeError \<and>
   Product_init (Some (catalogue_entry None (Some (StrV ''12.500GBP'')))) =
     Inr (Built (tea_pot_priced (IntV 1700)))"
  using
    price_pattern_spec[of "''12''" "''5''" "[]" "''12.50USD''"
      "catalogue_entry None (Some (StrV ''12.50USD''))" 1 "''Tea pot''" "''Le Creuset''" 2
      "[]" "CHR ''0''"]
    price_pattern_spec[of "''12''" "''500''" "[]" "''12.50USD''"
      "catalogue_entry None (Some (StrV ''12.500GBP''))" 1 "''Tea pot''" "''Le Creuset''" 2
      "[]" "CHR ''0''"]
    price_pattern_spec[of "''12''" "''5''" "'' and more''" "''12.50USD''"
      "catalogue_entry None (Some (StrV ''12.50USD''))" 1 "''Tea pot''" "''Le Creuset''" 2
      "[]" "CHR ''0''"]
  by (simp add: price_shape_def digits_def is_digit_def catalogue_entry_def tea_pot_priced_def
      Product_init_def Product_fields_def price_of_def dict_truthy_def price_re_match_def
      py_int_def digit_value_def Let_def)

text \<open>
  C8. For every price string made of a whole number, a dot, two digits and the currency
  code \<open>GBP\<close>, the price is the integer value of the whole number times \<open>100\<close> plus
  the value of the two digits, which lies between \<open>0\<close> and \<open>99\<close>; the product built
  has the five attributes of \<open>Product\<close> and so keeps no currency code. An
  \<open>int_price\<close> entry is the price as it is, whatever the \<open>price\<close> entry says. The
  pattern names \<open>GBP\<close>: with another currency code, as in \<open>12.50USD\<close>, the
  construction fails.
\<close>

theorem price_normalization_GBP:
  "(digits whole \<and> digits cents \<and> length cents = 2 \<longrightarrow>
      parse_price (StrV (whole @ ''.'' @ cents @ ''GBP'')) =
        Inr (IntV (py_int whole * 100 + py_int cents)) \<and>
      0 \<le> py_int cents \<and> py_int cents < 100) \<and>
   (digits whole \<and> digits cents \<and> length cents = 2 \<and>
    key_int_price d = None \<and> key_price d = Some (StrV (whole @ ''.'' @ cents @ ''GBP'')) \<and>
    key_id d = Some i \<and> key_name d = Some n \<and> key_brand d = Some b \<and>
    key_in_stock_quantity d = Some q \<longrightarrow>
      Product_init (Some d) =
        Inr (Built \<lparr>product_id = i, name = n, brand = b,
                    price = IntV (py_int whole * 100 + py_int cents),
                    in_stock_quantity = q\<rparr>)) \<and>
   (key_int_price d = Some v \<and>
    key_id d = Some i \<and> key_name d = Some n \<and> key_brand d = Some b \<and>
    key_in_stock_quantity d = Some q \<longrightarrow>
      Product_init (Some d) =
        Inr (Built \<lparr>product_id = i, name = n, brand = b, price = v,
                    in_stock_quantity = q\<rparr>))"
proof (intro conjI impI)
  assume a: "digits whole \<and> digits cents \<and> length cents = 2"
  have "whole @ ''.'' @ cents @ ''GBP'' = price_shape whole cents []"
    by (simp add: price_shape_def)
  moreover have "parse_price (StrV (price_shape whole cents [])) =
      Inr (IntV (py_int whole * 100 + py_int cents))"
    using a by (intro parse_price_shape) simp_all
  ultimately show "parse_price (StrV (whole @ ''.'' @ cents @ ''GBP'')) =
        Inr (IntV (py_int whole * 100 + py_int cents))"
    by (simp only:)
  show "0 \<le> py_int cents" "py_int cents < 100"
    using a py_int_two_range[of cents] by simp_all
next
  assume a: "digits whole \<and> digits cents \<and> length cents = 2 \<and>
    key_int_price d = None \<and> key_price d = Some (StrV (whole @ ''.'' @ cents @ ''GBP'')) \<and>
    key_id d = Some i \<and> key_name d = Some n \<and> key_brand d = Some b \<and>
    key_in_stock_quantity d = Some q"
  have eq: "whole @ ''.'' @ cents @ ''GBP'' = price_shape whole cents []"
    by (simp add: price_shape_def)
  have "price_re_match (price_shape whole cents []) = Some (whole, cents)"
    using a by (simp add: price_re_match_shape)
  with a have "price_of d = Inr (IntV (py_int whole * 100 + py_int cents))"
    unfolding eq by (simp add: price_of_def)
  with a show "Product_init (Some d) =
        Inr (Built \<lparr>product_id = i, name = n, brand = b,
                    price = IntV (py_int whole * 100 + py_int cents),
                    in_stock_quantity = q\<rparr>)"
    by (simp add: Product_fields_priced)
next
  assume a: "key_int_price d = Some v \<and>
    key_id d = Some i \<and> key_name d = Some n \<and> key_brand d = Some b \<and>
    key_in_stock_quantity d = Some q"
  then have "price_of d = Inr v" by (simp add: price_of_def)
  with a show "Product_init (Some d) =
        Inr (Built \<lparr>product_id = i, name = n, brand = b, price = v,
                    in_stock_quantity = q\<rparr>)"
    by (simp add: Product_fields_priced)
qed

theorem price_normalization_GBP_witness:
  "digits ''12'' \<and> digits ''50'' \<and> digits ''0'' \<and> digits ''01'' \<and>
   parse_price (StrV ''12.50GBP'') = Inr (IntV 1250) \<and>
   parse_price (StrV ''0.01GBP'') = Inr (IntV 1) \<and>
   Product_init (Some (catalogue_entry None (Some (StrV ''12.50GBP'')))) =
     Inr (Built (tea_pot_priced (IntV 1250))) \<and>
   Product_init (Some (catalogue_entry (Some (IntV 999)) None)) =
     Inr (Built (tea_pot_priced (IntV 999))) \<and>
   Product_init (Some (catalogue_entry (Some (IntV 999)) (Some (StrV ''12.50GBP'')))) =
     Inr (Built (tea_pot_priced (IntV 999)))"
  using
    price_normalization_GBP[of "''12''" "''50''"
      "catalogue_entry None (Some (StrV ''12.50GBP''))" 1 "''Tea pot''" "''Le Creuset''" 2
      "IntV 999"]
    price_normalization_GBP[of "''0''" "''01''"
      "catalogue_entry (Some (IntV 999)) None" 1 "''Tea pot''" "''Le Creuset''" 2
      "IntV 999"]
  by (simp add: digits_def is_digit_def catalogue_entry_def tea_pot_priced_def
      Product_init_def Product_fields_def price_of_def dict_truthy_def price_re_match_def
      py_int_def digit_value_def Let_def)

theorem price_normalization_counterexample:
  "Product_init
     (Some \<lparr>key_id = Some 1, key_name = Some ''Tea pot'', key_brand = Some ''Le Creuset'',
            key_int_price = None, key_price = Some (StrV ''12.50USD''),
            key_in_stock_quantity = Some 2, other_keys = []\<rparr>) =
   Inl AttributeError"
  by (simp add: Product_init_def Product_fields_def price_of_def dict_truthy_def
      price_re_match_def is_digit_def Let_def)

lemma parse_price_unparseable:
  assumes "\<forall>s. v = StrV s \<longrightarrow>
             \<not> (\<exists>w c r. digits w \<and> digits c \<and> s = price_shape w c r)"
  shows "parse_price v = Inl (case v of StrV s \<Rightarrow> AttributeError | _ \<Rightarrow> TypeError)"
proof (cases v)
  case (StrV s)
  with assms have "\<not> (\<exists>w c r. digits w \<and> digits c \<and> s = price_shape w c r)" by blast
  then have "parse_price (StrV s) = Inl AttributeError" by (rule parse_price_no_shape)
  with StrV show ?thesis by simp
qed simp_all

lemma Product_init_price_error_exact:
  assumes "dict_truthy d" "price_of d = Inl e"
  shows "Product_init (Some d) =
         Inl (if key_id d = None then KeyError ''id''
              else if key_name d = None then KeyError ''name''
              else if key_brand d = None then KeyError ''brand''
              else e)"
  using assms
  by (cases "key_id d"; cases "key_name d"; cases "key_brand d")
     (simp_all add: Product_init_def Product_fields_def)

text \<open>
  C7. Construction from a description that is not empty and has neither an \<open>int_price\<close>
  entry nor a \<open>price\<close> entry of the pattern's shape raises, so the caller receives no
  object, built or half built. The error is the \<open>KeyError\<close> of the first of \<open>id\<close>,
  \<open>name\<close> and \<open>brand\<close> that is absent; when all three are there it is
  \<open>Price is missing!\<close> for a description without \<open>price\<close> entry, \<open>AttributeError\<close>
  for a \<open>price\<close> string that does not match, and \<open>TypeError\<close> for a \<open>price\<close> entry
  that is no string.
\<close>

theorem construction_fails_without_price:
  "(dict_truthy d \<and> key_int_price d = None \<and> key_price d = None \<longrightarrow>
      Product_init (Some d) =
        Inl (if key_id d = None then KeyError ''id''
             else if key_name d = None then KeyError ''name''
             else if key_brand d = None then KeyError ''brand''
             else PriceMissing)) \<and>
   (key_id d = Some i \<and> key_name d = Some n \<and> key_brand d = Some b \<and>
    key_int_price d = None \<and> key_price d = None \<longrightarrow>
      Product_init (Some d) = Inl PriceMissing) \<and>
   (key_int_price d = None \<and> key_price d = Some v \<and>
    (\<forall>s. v = StrV s \<longrightarrow> \<not> (\<exists>w c r. digits w \<and> digits c \<and> s = price_shape w c r)) \<longrightarrow>
      Product_init (Some d) =
        Inl (if key_id d = None then KeyError ''id''
             else if key_name d = None then KeyError ''name''
             else if key_brand d = None then KeyError ''brand''
             else (case v of StrV s \<Rightarrow> AttributeError | _ \<Rightarrow> TypeError)))"
proof (intro conjI impI)
  assume a: "dict_truthy d \<and> key_int_price d = None \<and> key_price d = None"
  then have "price_of d = Inl PriceMissing" by (simp add: price_of_def)
  with a show "Product_init (Some d) =
        Inl (if key_id d = None then KeyError ''id''
             else if key_name d = None then KeyError ''name''
             else if key_brand d = None then KeyError ''brand''
             else PriceMissing)"
    by (simp add: Product_init_price_error_exact)
next
  assume a: "key_id d = Some i \<and> key_name d = Some n \<and> key_brand d = Some b \<and>
    key_int_price d = None \<and> key_price d = None"
  then show "Product_init (Some d) = Inl PriceMissing"
    by (simp add: Product_init_def Product_fields_def price_of_def dict_truthy_def)
next
  assume a: "key_int_price d = None \<and> key_price d = Some v \<and>
    (\<forall>s. v = StrV s \<longrightarrow> \<not> (\<exists>w c r. digits w \<and> digits c \<and> s = price_shape w c r))"
  then have "\<forall>s. v = StrV s \<longrightarrow> \<not> (\<exists>w c r. digits w \<and> digits c \<and> s = price_shape w c r)"
    by blast
  then have "parse_price v = Inl (case v of StrV s \<Rightarrow> AttributeError | _ \<Rightarrow> TypeError)"
    by (rule parse_price_unparseable)
  with a have p: "price_of d = Inl (case v of StrV s \<Rightarrow> AttributeError | _ \<Rightarrow> TypeError)"
    by (simp add: price_of_def)
  from a have t: "dict_truthy d" by (simp add: dict_truthy_def)
  show "Product_init (Some d) =
        Inl (if key_id d = None then KeyError ''id''
             else if key_name d = None then KeyError ''name''
             else if key_brand d = None then KeyError ''brand''
             else (case v of StrV s \<Rightarrow> AttributeError | _ \<Rightarrow> TypeError))"
    using t p by (rule Product_init_price_error_exact)
qed

theorem construction_fails_without_price_witness:
  "dict_truthy (catalogue_entry None None) \<and>
   Product_init (Some (catalogue_entry None None)) = Inl PriceMissing \<and>
   Product_init (Some (catalogue_entry None (Some (StrV ''twelve pounds'')))) =
     Inl AttributeError \<and>
   Product_init (Some (catalogue_entry None (Some (IntV 1250)))) = Inl TypeError \<and>
   Product_init (Some ((catalogue_entry None None)\<lparr>key_id := None\<rparr>)) =
     Inl (KeyError ''id'') \<and>
   Product_init
     (Some ((catalogue_entry None (Some (StrV ''twelve pounds'')))\<lparr>key_brand := None\<rparr>)) =
     Inl (KeyError ''brand'')"
  using
    construction_fails_without_price[of "catalogue_entry None None" 1 "''Tea pot''"
      "''Le Creuset''" "IntV 1250"]
    construction_fails_without_price[of "catalogue_entry None (Some (IntV 1250))" 1
      "''Tea pot''" "''Le Creuset''" "IntV 1250"]
    construction_fails_without_price[of
      "(catalogue_entry None (Some (StrV ''twelve pounds'')))\<lparr>key_brand := None\<rparr>" 1
      "''Tea pot''" "''Le Creuset''" "StrV ''twelve pounds''"]
  by (simp add: catalogue_entry_def Product_init_def Product_fields_def price_of_def
      dict_truthy_def price_re_match_def is_digit_def Let_def)

theorem construction_counterexample:
  "Product_init
     (Some \<lparr>key_id = None, key_name = None, key_brand = None, key_int_price = None,
            key_price = None, key_in_stock_quantity = None, other_keys = []\<rparr>) =
   Inr Bare"
  by (simp add: Product_init_def dict_truthy_def)

section \<open>WeddingList\<close>

lemma call_purchase_no_stock:
  "\<not> 0 < in_stock_quantity (product (heap w r)) \<Longrightarrow> call_purchase r w = (Inl OutOfStock, w)"
  by (simp add: call_purchase_def GiftItem_purchase_no_stock)

lemma call_purchase_in_stock:
  "0 < in_stock_quantity (product (heap w r)) \<Longrightarrow>
   call_purchase r w =
     (Inr (),
      w\<lparr>heap := (heap w)(r := fst (snd (GiftItem_purchase (heap w r) (conn w)))),
        conn := snd (snd (GiftItem_purchase (heap w r) (conn w)))\<rparr>) \<and>
   purchased (fst (snd (GiftItem_purchase (heap w r) (conn w))))"
  by (simp add: call_purchase_def GiftItem_purchase_in_stock)

lemma call_purchase_success:
  assumes "fst (call_purchase r w) = Inr ()"
  shows "purchased (heap (snd (call_purchase r w)) r)"
    and "a \<noteq> r \<Longrightarrow> heap (snd (call_purchase r w)) a = heap w a"
proof -
  have pos: "0 < in_stock_quantity (product (heap w r))"
    using assms call_purchase_no_stock[of w r] by (cases "0 < in_stock_quantity (product (heap w r))") simp_all
  from call_purchase_in_stock[OF pos]
  show "purchased (heap (snd (call_purchase r w)) r)"
    and "a \<noteq> r \<Longrightarrow> heap (snd (call_purchase r w)) a = heap w a"
    by simp_all
qed

lemma call_purchase_others:
  "a \<noteq> r \<Longrightarrow> heap (snd (call_purchase r w)) a = heap w a"
  by (cases "0 < in_stock_quantity (product (heap w r))")
     (simp_all add: call_purchase_no_stock call_purchase_in_stock)

lemma get_wedding_gifts_example:
  "get_wedding_gifts example_db = Inr [tea_pot_gift, lamp_gift]"
  by (simp add: get_wedding_gifts_def gift_of_row_def get_product_by_id_rows
      example_db_def tea_pot_row_def lamp_row_def tea_pot_gift_def
      lamp_gift_def product_of_row_def)

lemma first_load:
  "call_get_wedding_gifts example_world =
     (Inr [0, 1],
      \<lparr>heap = (\<lambda>_. no_object)(0 := tea_pot_gift, 1 := lamp_gift), next_ref = 2,
       conn = example_db\<rparr>)"
  by (simp add: call_get_wedding_gifts_def example_world_def get_wedding_gifts_example
      alloc_def)

lemma second_load:
  "call_get_wedding_gifts (snd (call_get_wedding_gifts example_world)) =
     (Inr [2, 3],
      \<lparr>heap = (\<lambda>_. no_object)(0 := tea_pot_gift, 1 := lamp_gift, 2 := tea_pot_gift,
                3 := lamp_gift),
       next_ref = 4, conn = example_db\<rparr>)"
  by (simp only: first_load snd_conv)
     (simp add: call_get_wedding_gifts_def get_wedding_gifts_example alloc_def)

lemma loaded_twice_eq:
  "loaded_twice =
     \<lparr>heap = (\<lambda>_. no_object)(0 := tea_pot_gift, 1 := lamp_gift, 2 := tea_pot_gift,
               3 := lamp_gift),
      next_ref = 4, conn = example_db\<rparr>"
  by (simp only: loaded_twice_def second_load snd_conv)

text \<open>
  C4. For every list of gift item objects and every state of their flags, the purchased
  query and the not-purchased query return two lists with no common member whose members
  together are exactly the members of the list: as multisets they add up to the list,
  each is the list with some members left out, in list order, and the pair is the
  partition of the list by the flag. The queries return a list and change nothing. They
  read the flags of the world they are called in: after a purchase of the object \<open>r\<close>
  has returned, the purchased query of the new world holds \<open>r\<close> wherever the list does,
  and the not-purchased query no longer does.
\<close>

theorem partition_spec:
  "set (get_purchased_gift self w) \<inter> set (get_non_purchased_gift self w) = {} \<and>
   set (get_purchased_gift self w) \<union> set (get_non_purchased_gift self w) = set self \<and>
   mset (get_purchased_gift self w) + mset (get_non_purchased_gift self w) = mset self \<and>
   subseq (get_purchased_gift self w) self \<and>
   subseq (get_non_purchased_gift self w) self \<and>
   (get_purchased_gift self w, get_non_purchased_gift self w) =
     partition (\<lambda>a. purchased (heap w a)) self \<and>
   (fst (call_purchase r w) = Inr () \<longrightarrow>
      get_purchased_gift self (snd (call_purchase r w)) =
        filter (\<lambda>a. a = r \<or> purchased (heap w a)) self \<and>
      get_non_purchased_gift self (snd (call_purchase r w)) =
        filter (\<lambda>a. a \<noteq> r \<and> \<not> purchased (heap w a)) self)"
proof (intro conjI impI)
  show "set (get_purchased_gift self w) \<inter> set (get_non_purchased_gift self w) = {}"
    by (auto simp: get_purchased_gift_def get_non_purchased_gift_def)
  show "set (get_purchased_gift self w) \<union> set (get_non_purchased_gift self w) = set self"
    by (auto simp: get_purchased_gift_def get_non_purchased_gift_def)
  show "mset (get_purchased_gift self w) + mset (get_non_purchased_gift self w) = mset self"
    by (simp add: get_purchased_gift_def get_non_purchased_gift_def)
  show "subseq (get_purchased_gift self w) self"
    by (simp add: get_purchased_gift_def)
  show "subseq (get_non_purchased_gift self w) self"
    by (simp add: get_non_purchased_gift_def)
  show "(get_purchased_gift self w, get_non_purchased_gift self w) =
     partition (\<lambda>a. purchased (heap w a)) self"
    by (simp add: get_purchased_gift_def get_non_purchased_gift_def o_def)
next
  assume ok: "fst (call_purchase r w) = Inr ()"
  have flag: "purchased (heap (snd (call_purchase r w)) a) \<longleftrightarrow> a = r \<or> purchased (heap w a)"
    for a
    using call_purchase_success(1)[OF ok] call_purchase_success(2)[OF ok, of a]
    by (cases "a = r") simp_all
  show "get_purchased_gift self (snd (call_purchase r w)) =
        filter (\<lambda>a. a = r \<or> purchased (heap w a)) self"
    by (simp add: get_purchased_gift_def flag)
  show "get_non_purchased_gift self (snd (call_purchase r w)) =
        filter (\<lambda>a. a \<noteq> r \<and> \<not> purchased (heap w a)) self"
    by (simp add: get_non_purchased_gift_def flag)
qed

theorem partition_spec_witness:
  "fst (call_purchase 0 loaded_twice) = Inr () \<and>
   get_purchased_gift [0, 1] loaded_twice = [] \<and>
   get_non_purchased_gift [0, 1] loaded_twice = [0, 1] \<and>
   get_purchased_gift [0, 1] (snd (call_purchase 0 loaded_twice)) = [0] \<and>
   get_non_purchased_gift [0, 1] (snd (call_purchase 0 loaded_twice)) = [1]"
  using partition_spec[of "[0, 1]" loaded_twice 0]
  by (simp add: loaded_twice_eq get_purchased_gift_def
      get_non_purchased_gift_def call_purchase_def
      GiftItem_purchase_def Product_purchase_def Let_def tea_pot_gift_def lamp_gift_def
      product_of_row_def tea_pot_row_def lamp_row_def)

lemma list_index_member:
  "gift \<in> set self \<Longrightarrow>
   \<exists>i < length self. list_index self gift = Inr i \<and> self ! i = gift \<and>
      (\<forall>j < i. self ! j \<noteq> gift)"
proof (induction self)
  case Nil
  then show ?case by simp
next
  case (Cons y ys)
  show ?case
  proof (cases "y = gift")
    case True
    then show ?thesis by simp
  next
    case False
    with Cons.prems have "gift \<in> set ys" by simp
    from Cons.IH[OF this] obtain i where i: "i < length ys" "list_index ys gift = Inr i"
      "ys ! i = gift" "\<forall>j < i. ys ! j \<noteq> gift" by blast
    have "\<forall>j < Suc i. (y # ys) ! j \<noteq> gift"
      using False i(4) by (auto simp: nth_Cons split: nat.splits)
    with False i show ?thesis by (intro exI[of _ "Suc i"]) simp
  qed
qed

lemma list_index_not_member: "gift \<notin> set self \<Longrightarrow> list_index self gift = Inl ValueError"
  by (induction self) simp_all

lemma purchase_gift_member:
  assumes "gift \<in> set self"
  shows "purchase_gift self gift w = call_purchase gift w"
proof -
  from list_index_member[OF assms] obtain i where "list_index self gift = Inr i"
    "self ! i = gift" by blast
  then show ?thesis by (simp add: purchase_gift_def)
qed

lemma purchase_gift_not_member:
  "gift \<notin> set self \<Longrightarrow> purchase_gift self gift w = (Inl ValueError, w)"
  by (simp add: purchase_gift_def list_index_not_member)

text \<open>
  C6. \<open>purchase_gift\<close> looks the target up with \<open>list.index\<close>, which compares gift
  items as objects. When the target object is a member, the member found is the first
  position holding it, and the call is the purchase of that object. When the target
  object is not a member, \<open>ValueError\<close> is raised and the world is left as it was; this
  is so also when a member has the target's gift id, as two loads of the same row give.
  In either case no other object is changed.
\<close>

theorem purchase_gift_spec:
  "(gift \<in> set self \<longrightarrow>
      purchase_gift self gift w = call_purchase gift w \<and>
      (\<exists>i < length self. list_index self gift = Inr i \<and> self ! i = gift \<and>
         (\<forall>j < i. self ! j \<noteq> gift))) \<and>
   (gift \<notin> set self \<longrightarrow> purchase_gift self gift w = (Inl ValueError, w)) \<and>
   (\<forall>r. r \<noteq> gift \<longrightarrow> heap (snd (purchase_gift self gift w)) r = heap w r)"
proof (intro conjI impI allI)
  assume "gift \<in> set self"
  then show "purchase_gift self gift w = call_purchase gift w"
    and "\<exists>i < length self. list_index self gift = Inr i \<and> self ! i = gift \<and>
         (\<forall>j < i. self ! j \<noteq> gift)"
    by (simp_all add: purchase_gift_member list_index_member)
next
  assume "gift \<notin> set self"
  then show "purchase_gift self gift w = (Inl ValueError, w)"
    by (rule purchase_gift_not_member)
next
  fix r assume "r \<noteq> gift"
  then show "heap (snd (purchase_gift self gift w)) r = heap w r"
    by (cases "gift \<in> set self")
       (simp_all add: purchase_gift_member purchase_gift_not_member call_purchase_others)
qed

theorem purchase_gift_spec_witness:
  "0 \<in> set [0, 1 :: nat] \<and> 2 \<notin> set [0, 1 :: nat] \<and>
   purchase_gift [0, 1] 2 loaded_twice = (Inl ValueError, loaded_twice) \<and>
   fst (purchase_gift [0, 1] 0 loaded_twice) = Inr () \<and>
   purchased (heap (snd (purchase_gift [0, 1] 0 loaded_twice)) 0) \<and>
   heap (snd (purchase_gift [0, 1] 0 loaded_twice)) 2 = heap loaded_twice 2 \<and>
   fst (purchase_gift [0, 1] 1 loaded_twice) = Inl OutOfStock"
  using purchase_gift_spec[of 0 "[0, 1]" loaded_twice]
    purchase_gift_spec[of 2 "[0, 1]" loaded_twice]
    purchase_gift_spec[of 1 "[0, 1]" loaded_twice]
  by (simp add: loaded_twice_eq purchase_gift_def call_purchase_def
      GiftItem_purchase_def Product_purchase_def Let_def tea_pot_gift_def lamp_gift_def
      product_of_row_def tea_pot_row_def lamp_row_def)

theorem purchase_gift_counterexample:
  "fst (call_get_wedding_gifts example_world) = Inr [0, 1] \<and>
   fst (call_get_wedding_gifts (snd (call_get_wedding_gifts example_world))) = Inr [2, 3] \<and>
   gift_id (heap loaded_twice 2) = gift_id (heap loaded_twice 0) \<and>
   0 < in_stock_quantity (product (heap loaded_twice 0)) \<and>
   purchase_gift [0, 1] 2 loaded_twice = (Inl ValueError, loaded_twice)"
proof (intro conjI)
  show "fst (call_get_wedding_gifts example_world) = Inr [0, 1]"
    by (simp add: first_load)
  show "fst (call_get_wedding_gifts (snd (call_get_wedding_gifts example_world))) =
        Inr [2, 3]"
    by (simp only: second_load fst_conv)
  show "gift_id (heap loaded_twice 2) = gift_id (heap loaded_twice 0)"
    by (simp add: loaded_twice_eq)
  show "0 < in_stock_quantity (product (heap loaded_twice 0))"
    by (simp add: loaded_twice_eq tea_pot_gift_def product_of_row_def tea_pot_row_def)
  show "purchase_gift [0, 1] 2 loaded_twice = (Inl ValueError, loaded_twice)"
    by (simp add: purchase_gift_def)
qed

section \<open>The purchased flag\<close>

lemma foldl_max_ge: "(a::int) \<le> foldl max a xs \<and> (\<forall>x \<in> set xs. x \<le> foldl max a xs)"
proof (induction xs arbitrary: a)
  case Nil
  then show ?case by simp
next
  case (Cons y ys)
  have "max a y \<le> foldl max (max a y) ys" "\<forall>x \<in> set ys. x \<le> foldl max (max a y) ys"
    using Cons.IH[of "max a y"] by simp_all
  then show ?case by auto
qed

lemma next_rowid_fresh: "row \<in> set rows \<Longrightarrow> g_rowid row < next_rowid rows"
proof (cases rows)
  case Nil
  assume "row \<in> set rows"
  with Nil show ?thesis by simp
next
  case (Cons r rs)
  assume "row \<in> set rows"
  with Cons have "row = r \<or> g_rowid row \<in> set (map g_rowid rs)" by auto
  then have "g_rowid row \<le> foldl max (g_rowid r) (map g_rowid rs)"
    using foldl_max_ge[of "g_rowid r" "map g_rowid rs"] by auto
  with Cons show ?thesis by (simp add: next_rowid_def)
qed

lemma next_rowid_not_in: "next_rowid rows \<notin> g_rowid ` set rows"
  using next_rowid_fresh by fastforce

lemma get_new_gift_item_eq:
  "get_new_gift_item db p =
     (\<lparr>gift_id = next_rowid (wedding_gift db), product = p, purchased = False\<rparr>,
      commit (execute (INSERT_wedding_gift (product_id p) 0) db))"
  by (simp add: get_new_gift_item_def Let_def)

lemma wedding_gift_commit_execute_INSERT:
  "wedding_gift (commit (execute (INSERT_wedding_gift pid v) db)) =
   wedding_gift db @
   [\<lparr>g_rowid = next_rowid (wedding_gift db), g_product_id = pid, g_purchased = v\<rparr>]"
  by (simp add: commit_def execute_def)

lemma wedding_gift_commit_execute_DELETE:
  "wedding_gift (commit (execute (DELETE_wedding_gift rid) db)) =
   filter (\<lambda>r. g_rowid r \<noteq> rid) (wedding_gift db)"
  by (simp add: commit_def execute_def)

lemma call_purchase_flag:
  "purchased (heap (snd (call_purchase r' w)) r) \<longleftrightarrow>
   purchased (heap w r) \<or> (fst (call_purchase r' w) = Inr () \<and> r' = r)"
proof (cases "0 < in_stock_quantity (product (heap w r'))")
  case True
  from call_purchase_in_stock[OF True] show ?thesis by (cases "r' = r") simp_all
next
  case False
  then show ?thesis by (simp add: call_purchase_no_stock)
qed

lemma call_purchase_next_ref: "next_ref (snd (call_purchase r' w)) = next_ref w"
  by (cases "0 < in_stock_quantity (product (heap w r'))")
     (simp_all add: call_purchase_no_stock call_purchase_in_stock)

lemma call_purchase_rows:
  "wedding_gift (conn (snd (call_purchase r' w))) = wedding_gift (conn w) \<or>
   wedding_gift (conn (snd (call_purchase r' w))) =
     map (\<lambda>r. if g_rowid r = gift_id (heap w r') then r\<lparr>g_purchased := 1\<rparr> else r)
       (wedding_gift (conn w))"
proof (cases "0 < in_stock_quantity (product (heap w r'))")
  case True
  then show ?thesis
    by (simp add: call_purchase_def GiftItem_purchase_in_stock
        tables_commit_execute_UPDATE_wedding_gift wedding_gift_commit_execute_UPDATE_products)
next
  case False
  then show ?thesis by (simp add: call_purchase_no_stock)
qed

lemma call_remove_eq:
  "call_remove r' w =
     w\<lparr>conn := commit (execute (DELETE_wedding_gift (gift_id (heap w r'))) (conn w))\<rparr>"
  by (simp add: call_remove_def GiftItem_remove_def)

lemma call_product_purchase_facts:
  "purchased (heap (snd (call_product_purchase r' w)) r) = purchased (heap w r)"
  "next_ref (snd (call_product_purchase r' w)) = next_ref w"
  "wedding_gift (conn (snd (call_product_purchase r' w))) = wedding_gift (conn w)"
  by (cases "0 < in_stock_quantity (product (heap w r'))";
      simp add: call_product_purchase_def Product_purchase_in_stock Product_purchase_no_stock
        wedding_gift_commit_execute_UPDATE_products)+

lemma alloc_all_facts:
  "alloc_all gs w = (rs, w') \<Longrightarrow>
   next_ref w \<le> next_ref w' \<and> (\<forall>r < next_ref w. heap w' r = heap w r) \<and> conn w' = conn w"
proof (induction gs arbitrary: w rs w')
  case Nil
  then show ?case by simp
next
  case (Cons g gs)
  let ?w1 = "w\<lparr>heap := (heap w)(next_ref w := g), next_ref := Suc (next_ref w)\<rparr>"
  obtain rs2 w2 where a: "alloc_all gs ?w1 = (rs2, w2)" by (cases "alloc_all gs ?w1")
  with Cons.prems have "w' = w2" by (simp add: alloc_def)
  with Cons.IH[OF a] show ?case by auto
qed

lemma call_get_wedding_gifts_facts:
  "next_ref w \<le> next_ref (snd (call_get_wedding_gifts w)) \<and>
   (\<forall>r < next_ref w. heap (snd (call_get_wedding_gifts w)) r = heap w r) \<and>
   conn (snd (call_get_wedding_gifts w)) = conn w"
proof (cases "get_wedding_gifts (conn w)")
  case (Inl e)
  then show ?thesis by (simp add: call_get_wedding_gifts_def)
next
  case (Inr gs)
  obtain rs w' where a: "alloc_all gs w = (rs, w')" by (cases "alloc_all gs w")
  with Inr have "snd (call_get_wedding_gifts w) = w'" by (simp add: call_get_wedding_gifts_def)
  with alloc_all_facts[OF a] show ?thesis by simp
qed

lemma call_get_new_gift_item_eq:
  "call_get_new_gift_item p w =
     (next_ref w,
      w\<lparr>heap := (heap w)(next_ref w :=
            \<lparr>gift_id = next_rowid (wedding_gift (conn w)), product = p, purchased = False\<rparr>),
        next_ref := Suc (next_ref w),
        conn := commit (execute (INSERT_wedding_gift (product_id p) 0) (conn w))\<rparr>)"
  by (simp add: call_get_new_gift_item_def get_new_gift_item_eq alloc_def)

lemma perform_load_snd:
  "snd (perform Op_get_wedding_gifts w) = snd (call_get_wedding_gifts w)"
  by (simp split: prod.splits sum.splits)

lemma purchase_gift_flag:
  "purchased (heap (snd (purchase_gift self gift w)) r) \<longleftrightarrow>
   purchased (heap w r) \<or> (fst (purchase_gift self gift w) = Inr () \<and> gift = r)"
  by (cases "gift \<in> set self")
     (simp_all add: purchase_gift_member purchase_gift_not_member call_purchase_flag)

lemma perform_flag:
  assumes "r < next_ref w"
  shows "purchased (heap (snd (perform op w)) r) \<longleftrightarrow>
         purchased (heap w r) \<or> (fst (perform op w) = Inr () \<and> purchases op r)"
proof (cases op)
  case (Op_purchase r')
  then show ?thesis by (auto simp: purchases_def call_purchase_flag)
next
  case (Op_remove r')
  then show ?thesis by (simp add: purchases_def call_remove_eq)
next
  case (Op_product_purchase r')
  then show ?thesis by (simp add: purchases_def call_product_purchase_facts)
next
  case (Op_purchase_gift self gift)
  then show ?thesis by (auto simp: purchases_def purchase_gift_flag)
next
  case (Op_get_new_gift_item p)
  with assms show ?thesis by (simp add: purchases_def call_get_new_gift_item_eq)
next
  case Op_get_wedding_gifts
  have "heap (snd (call_get_wedding_gifts w)) r = heap w r"
    using call_get_wedding_gifts_facts[of w] assms by blast
  with Op_get_wedding_gifts show ?thesis
    by (simp only: perform_load_snd) (simp add: purchases_def)
qed

lemma perform_next_ref: "next_ref w \<le> next_ref (snd (perform op w))"
proof (cases op)
  case (Op_purchase r')
  then show ?thesis by (simp add: call_purchase_next_ref)
next
  case (Op_remove r')
  then show ?thesis by (simp add: call_remove_eq)
next
  case (Op_product_purchase r')
  then show ?thesis by (simp add: call_product_purchase_facts)
next
  case (Op_purchase_gift self gift)
  then show ?thesis
    by (cases "gift \<in> set self")
       (simp_all add: purchase_gift_member purchase_gift_not_member call_purchase_next_ref)
next
  case (Op_get_new_gift_item p)
  then show ?thesis by (simp add: call_get_new_gift_item_eq)
next
  case Op_get_wedding_gifts
  with call_get_wedding_gifts_facts[of w] show ?thesis
    by (simp only: perform_load_snd)
qed

lemma run_flag:
  "r < next_ref w \<Longrightarrow> purchased (heap w r) \<Longrightarrow> purchased (heap (run ops w) r)"
proof (induction ops arbitrary: w)
  case Nil
  then show ?case by (simp add: run_def)
next
  case (Cons op ops)
  let ?w = "snd (perform op w)"
  have "r < next_ref ?w" using Cons.prems(1) perform_next_ref[of w op] by simp
  moreover have "purchased (heap ?w r)"
    using Cons.prems perform_flag[of r w op] by simp
  ultimately have "purchased (heap (run ops ?w) r)" by (rule Cons.IH)
  then show ?case by (simp add: run_def)
qed

lemma rows_after_update:
  assumes "row \<in> set (map (\<lambda>r. if g_rowid r = rid then r\<lparr>g_purchased := 1\<rparr> else r) rows)"
    "g_purchased row \<le> 0"
  shows "row \<in> set rows"
  using assms by (auto split: if_splits)

lemma perform_rows:
  assumes "row \<in> set (wedding_gift (conn (snd (perform op w))))" "g_purchased row \<le> 0"
  shows "row \<in> set (wedding_gift (conn w)) \<or>
         g_rowid row \<notin> g_rowid ` set (wedding_gift (conn w))"
proof (cases op)
  case (Op_purchase r')
  with assms call_purchase_rows[of r' w] show ?thesis
    by (auto dest: rows_after_update)
next
  case (Op_remove r')
  with assms show ?thesis by (simp add: call_remove_eq wedding_gift_commit_execute_DELETE)
next
  case (Op_product_purchase r')
  with assms show ?thesis by (simp add: call_product_purchase_facts)
next
  case (Op_purchase_gift self gift)
  show ?thesis
  proof (cases "gift \<in> set self")
    case True
    with assms Op_purchase_gift call_purchase_rows[of gift w] show ?thesis
      by (auto simp: purchase_gift_member dest: rows_after_update)
  next
    case False
    with assms Op_purchase_gift show ?thesis by (simp add: purchase_gift_not_member)
  qed
next
  case (Op_get_new_gift_item p)
  with assms show ?thesis
    using next_rowid_not_in[of "wedding_gift (conn w)"]
    by (auto simp: call_get_new_gift_item_eq wedding_gift_commit_execute_INSERT)
next
  case Op_get_wedding_gifts
  with assms call_get_wedding_gifts_facts[of w] show ?thesis
    by (simp only: perform_load_snd) simp
qed

text \<open>
  C3. The factory returns a gift item whose flag is false, and the row it inserts, under
  a row id no row had, has the flag \<open>0\<close>; the insert is committed. The object the
  factory allocates is not purchased. Whatever operations follow one another, a gift item
  object whose flag is true keeps it true. When one operation changes the flag of an
  object, the operation is a purchase of that object that returned, and the flag went
  from false to true. In the gift table, a row that is unpurchased after an operation
  was there unpurchased before it, or was inserted by it under a new row id.
\<close>

theorem purchased_flag_spec:
  "purchased (fst (get_new_gift_item db p)) = False \<and>
   gift_id (fst (get_new_gift_item db p)) \<notin> g_rowid ` set (wedding_gift db) \<and>
   wedding_gift (snd (get_new_gift_item db p)) =
     wedding_gift db @
     [\<lparr>g_rowid = gift_id (fst (get_new_gift_item db p)), g_product_id = product_id p,
       g_purchased = 0\<rparr>] \<and>
   committed (snd (get_new_gift_item db p)) =
     committed db @ pending db @ [INSERT_wedding_gift (product_id p) 0] \<and>
   \<not> purchased (heap (snd (call_get_new_gift_item p w)) (fst (call_get_new_gift_item p w))) \<and>
   (r < next_ref w \<and> purchased (heap w r) \<longrightarrow> purchased (heap (run ops w) r)) \<and>
   (r < next_ref w \<and> purchased (heap (snd (perform op w)) r) \<noteq> purchased (heap w r) \<longrightarrow>
      fst (perform op w) = Inr () \<and> purchases op r \<and>
      \<not> purchased (heap w r) \<and> purchased (heap (snd (perform op w)) r)) \<and>
   (\<forall>row \<in> set (wedding_gift (conn (snd (perform op w)))).
      g_purchased row \<le> 0 \<longrightarrow>
      row \<in> set (wedding_gift (conn w)) \<or>
      g_rowid row \<notin> g_rowid ` set (wedding_gift (conn w)))"
proof (intro conjI impI ballI)
  show "purchased (fst (get_new_gift_item db p)) = False"
    by (simp add: get_new_gift_item_eq)
  show "gift_id (fst (get_new_gift_item db p)) \<notin> g_rowid ` set (wedding_gift db)"
    using next_rowid_not_in[of "wedding_gift db"] by (simp add: get_new_gift_item_eq)
  show "wedding_gift (snd (get_new_gift_item db p)) =
     wedding_gift db @
     [\<lparr>g_rowid = gift_id (fst (get_new_gift_item db p)), g_product_id = product_id p,
       g_purchased = 0\<rparr>]"
    by (simp add: get_new_gift_item_eq wedding_gift_commit_execute_INSERT)
  show "committed (snd (get_new_gift_item db p)) =
     committed db @ pending db @ [INSERT_wedding_gift (product_id p) 0]"
    by (simp add: get_new_gift_item_eq journal_commit_execute)
  show "\<not> purchased (heap (snd (call_get_new_gift_item p w)) (fst (call_get_new_gift_item p w)))"
    by (simp add: call_get_new_gift_item_eq)
next
  assume "r < next_ref w \<and> purchased (heap w r)"
  then show "purchased (heap (run ops w) r)" by (simp add: run_flag)
next
  assume a: "r < next_ref w \<and> purchased (heap (snd (perform op w)) r) \<noteq> purchased (heap w r)"
  then have "r < next_ref w" by blast
  then have f: "purchased (heap (snd (perform op w)) r) \<longleftrightarrow>
         purchased (heap w r) \<or> (fst (perform op w) = Inr () \<and> purchases op r)"
    by (rule perform_flag)
  from a f show "fst (perform op w) = Inr ()" by blast
  from a f show "purchases op r" by blast
  from a f show "\<not> purchased (heap w r)" by blast
  from a f show "purchased (heap (snd (perform op w)) r)" by blast
next
  fix row
  assume "row \<in> set (wedding_gift (conn (snd (perform op w))))" "g_purchased row \<le> 0"
  then show "row \<in> set (wedding_gift (conn w)) \<or>
      g_rowid row \<notin> g_rowid ` set (wedding_gift (conn w))"
    by (rule perform_rows)
qed

theorem purchased_flag_spec_witness:
  "0 < next_ref loaded_twice \<and>
   \<not> purchased (heap loaded_twice 0) \<and>
   fst (perform (Op_purchase 0) loaded_twice) = Inr () \<and>
   purchased (heap (snd (perform (Op_purchase 0) loaded_twice)) 0) \<and>
   purchased
     (heap (run [Op_remove 0, Op_get_new_gift_item (product_of_row lamp_row),
                 Op_get_wedding_gifts, Op_purchase 0]
              (snd (perform (Op_purchase 0) loaded_twice))) 0)"
proof -
  let ?w1 = "snd (perform (Op_purchase 0) loaded_twice)"
  have a: "0 < next_ref loaded_twice" "\<not> purchased (heap loaded_twice 0)"
    by (simp_all add: loaded_twice_eq tea_pot_gift_def)
  have b: "fst (perform (Op_purchase 0) loaded_twice) = Inr ()"
    "purchased (heap ?w1 0)" "0 < next_ref ?w1"
    by (simp_all add: loaded_twice_eq call_purchase_def GiftItem_purchase_def
        Product_purchase_def Let_def tea_pot_gift_def product_of_row_def tea_pot_row_def)
  have "purchased
     (heap (run [Op_remove 0, Op_get_new_gift_item (product_of_row lamp_row),
                 Op_get_wedding_gifts, Op_purchase 0] ?w1) 0)"
    using purchased_flag_spec[of example_db "product_of_row lamp_row" ?w1 0
        "[Op_remove 0, Op_get_new_gift_item (product_of_row lamp_row),
          Op_get_wedding_gifts, Op_purchase 0]" "Op_purchase 0"] b
    by blast
  with a b show ?thesis by (intro conjI)
qed

section \<open>Bootstrap and reload\<close>

lemma example_repository:
  "get_example_gift_repository [catalogue_entry None (Some (StrV ''12.50GBP''))] =
     Inr [Built (tea_pot_priced (IntV 1250))]"
  by (simp add: get_example_gift_repository_def catalogue_entry_def tea_pot_priced_def
      Product_init_def Product_fields_def price_of_def dict_truthy_def price_re_match_def
      is_digit_def py_int_def digit_value_def Let_def)

lemma example_repository_round:
  "get_example_gift_repository [catalogue_entry None (Some (StrV ''12.00GBP''))] =
     Inr [Built (tea_pot_priced (IntV 1200))]"
  by (simp add: get_example_gift_repository_def catalogue_entry_def tea_pot_priced_def
      Product_init_def Product_fields_def price_of_def dict_truthy_def price_re_match_def
      is_digit_def py_int_def digit_value_def Let_def)

lemma init_db_example:
  "init_db aff [catalogue_entry None (Some (StrV ''12.50GBP''))] fresh_db =
     (Inr (),
      \<lparr>has_schema = True,
       products =
         [\<lparr>p_rowid = 1, p_name = ''Tea pot'', p_brand = ''Le Creuset'',
           p_price = aff (25 / 2), p_in_stock_quantity = 2\<rparr>],
       wedding_gift = [], pending = [],
       committed =
         [CREATE_tables,
          INSERT_products
            \<lparr>p_rowid = 1, p_name = ''Tea pot'', p_brand = ''Le Creuset'',
             p_price = aff (25 / 2), p_in_stock_quantity = 2\<rparr>]\<rparr>)"
  by (simp add: init_db_def example_repository fresh_db_def executescript_schema_def
      execute_INSERT_products_def execute_def commit_def tea_pot_priced_def Let_def)

lemma init_db_example_round:
  "init_db aff [catalogue_entry None (Some (StrV ''12.00GBP''))] fresh_db =
     (Inr (),
      \<lparr>has_schema = True,
       products =
         [\<lparr>p_rowid = 1, p_name = ''Tea pot'', p_brand = ''Le Creuset'',
           p_price = aff 12, p_in_stock_quantity = 2\<rparr>],
       wedding_gift = [], pending = [],
       committed =
         [CREATE_tables,
          INSERT_products
            \<lparr>p_rowid = 1, p_name = ''Tea pot'', p_brand = ''Le Creuset'',
             p_price = aff 12, p_in_stock_quantity = 2\<rparr>]\<rparr>)"
  by (simp add: init_db_def example_repository_round fresh_db_def executescript_schema_def
      execute_INSERT_products_def execute_def commit_def tea_pot_priced_def Let_def)

lemma floor_twelve_and_a_half: "\<lfloor>25 / 2 :: rat\<rfloor> = 12"
  by (rule floor_unique) simp_all

text \<open>
  C9. The catalogue entry of the tea pot with the price string \<open>12.50GBP\<close> is built
  with the integer price \<open>1250\<close>. \<open>init_db\<close> on a database without tables stores
  \<open>gift.price / 100.\<close>, the float \<open>12.5\<close>, and \<open>get_gift_repository\<close> hands the
  stored value to the constructor as \<open>int_price\<close>: the product loaded again has the
  price \<open>12.5\<close>, a float of major units, under either conversion of the column. For the
  price string \<open>12.00GBP\<close> it has the float \<open>12\<close>, or the integer \<open>12\<close> when the
  column converts, and not \<open>1200\<close>.
\<close>

theorem bootstrap_price_reloaded:
  "Product_init (Some (catalogue_entry None (Some (StrV ''12.50GBP'')))) =
     Inr (Built (tea_pot_priced (IntV 1250))) \<and>
   fst (init_db real_affinity [catalogue_entry None (Some (StrV ''12.50GBP''))] fresh_db) =
     Inr () \<and>
   get_gift_repository
     (snd (init_db real_affinity [catalogue_entry None (Some (StrV ''12.50GBP''))] fresh_db)) =
     Inr [tea_pot_priced (FloatV (25 / 2))] \<and>
   get_gift_repository
     (snd (init_db integer_affinity [catalogue_entry None (Some (StrV ''12.50GBP''))]
             fresh_db)) =
     Inr [tea_pot_priced (FloatV (25 / 2))] \<and>
   get_gift_repository
     (snd (init_db real_affinity [catalogue_entry None (Some (StrV ''12.00GBP''))] fresh_db)) =
     Inr [tea_pot_priced (FloatV 12)] \<and>
   get_gift_repository
     (snd (init_db integer_affinity [catalogue_entry None (Some (StrV ''12.00GBP''))]
             fresh_db)) =
     Inr [tea_pot_priced (IntV 12)]"
proof (intro conjI)
  show "Product_init (Some (catalogue_entry None (Some (StrV ''12.50GBP'')))) =
     Inr (Built (tea_pot_priced (IntV 1250)))"
    using example_repository by (simp add: get_example_gift_repository_def split: sum.splits)
qed (simp_all add: init_db_example init_db_example_round get_gift_repository_rows
      product_of_row_def tea_pot_priced_def real_affinity_def integer_affinity_def
      floor_twelve_and_a_half)

end
